theory Spec2Isabelle
  imports Main "HOL-Library.AList" "HOL-Library.Word"
begin

section \<open>Python values, strings and exceptions\<close>

text \<open>
  The configuration flows of \<^verbatim>\<open>config_flow.py\<close> receive dictionaries whose values are
  Python objects of several types. A Python \<^verbatim>\<open>str\<close> is a sequence of Unicode code points
  and \<^verbatim>\<open>len\<close> counts code points, so a string is modelled as a list of code points
  (natural numbers), not as a list of bytes. Bytes objects are lists of 8-bit words.
\<close>

type_synonym pystr = "nat list"
type_synonym byte = "8 word"

definition ascii :: "string \<Rightarrow> pystr" where
  "ascii s = map (\<lambda>c. of_char c) s"

datatype pyval = PNone | PBool bool | PInt int | PStr pystr

text \<open>
  Exceptions are values. All constructors stand for subclasses of \<^verbatim>\<open>Exception\<close>;
  \<^verbatim>\<open>Invalid\<close> is \<^verbatim>\<open>vol.Invalid\<close>, \<^verbatim>\<open>OtherException\<close> is whatever else a library call
  raises (\<^verbatim>\<open>OSError\<close>, \<^verbatim>\<open>ConnectionResetError\<close>, \<^verbatim>\<open>ModbusException\<close>, ...).
\<close>

datatype py_exn =
    Invalid string
  | KeyError string
  | AttributeError
  | TypeError
  | ValueError
  | UnicodeEncodeError
  | UnboundLocalError
  | ImportError
  | OtherException string

fun is_Invalid :: "py_exn \<Rightarrow> bool" where
  "is_Invalid (Invalid m) = True"
| "is_Invalid e = False"

definition is_Exception :: "py_exn \<Rightarrow> bool" where
  "is_Exception e = True"

subsection \<open>\<^verbatim>\<open>str()\<close>, truthiness, equality, \<^verbatim>\<open>int()\<close>\<close>

text \<open>Decimal digits of a natural number, most significant first.\<close>

fun digits :: "nat \<Rightarrow> pystr" where
  "digits n = (if n < 10 then [48 + n] else digits (n div 10) @ [48 + n mod 10])"

declare digits.simps [simp del]

definition str_int :: "int \<Rightarrow> pystr" where
  "str_int i = (if i < 0 then 45 # digits (nat (- i)) else digits (nat i))"

fun py_str :: "pyval \<Rightarrow> pystr" where
  "py_str (PStr s) = s"
| "py_str (PInt i) = str_int i"
| "py_str (PBool b) = (if b then ascii ''True'' else ascii ''False'')"
| "py_str PNone = ascii ''None''"

fun py_truthy :: "pyval \<Rightarrow> bool" where
  "py_truthy PNone = False"
| "py_truthy (PBool b) = b"
| "py_truthy (PInt i) = (i \<noteq> 0)"
| "py_truthy (PStr s) = (s \<noteq> [])"

text \<open>\<^verbatim>\<open>isinstance(v, int)\<close> with the integer the value stands for: \<^verbatim>\<open>bool\<close> is a
  subclass of \<^verbatim>\<open>int\<close>, with \<^verbatim>\<open>True == 1\<close> and \<^verbatim>\<open>False == 0\<close>.\<close>

fun int_value :: "pyval \<Rightarrow> int option" where
  "int_value (PInt i) = Some i"
| "int_value (PBool b) = Some (if b then 1 else 0)"
| "int_value v = None"

text \<open>Python's \<^verbatim>\<open>==\<close> on these values.\<close>

fun py_eq :: "pyval \<Rightarrow> pyval \<Rightarrow> bool" where
  "py_eq (PStr a) (PStr b) = (a = b)"
| "py_eq PNone PNone = True"
| "py_eq a b = (case (int_value a, int_value b) of (Some x, Some y) \<Rightarrow> x = y | _ \<Rightarrow> False)"

text \<open>
  \<^verbatim>\<open>int(value)\<close>. On a string the built-in parses a numeral (white space, sign,
  underscores, any Unicode digit); that parser belongs to the runtime and is taken as a
  parameter \<open>int_of_str\<close>, which returns the integer or the \<^verbatim>\<open>ValueError\<close>.
\<close>

fun py_int :: "(pystr \<Rightarrow> py_exn + int) \<Rightarrow> pyval \<Rightarrow> py_exn + int" where
  "py_int int_of_str (PInt i) = Inr i"
| "py_int int_of_str (PBool b) = Inr (if b then 1 else 0)"
| "py_int int_of_str (PStr s) = int_of_str s"
| "py_int int_of_str PNone = Inl TypeError"

subsection \<open>\<^verbatim>\<open>str.encode()\<close>: UTF-8\<close>

definition encode_code_point :: "nat \<Rightarrow> py_exn + byte list" where
  "encode_code_point c =
     (if c < 0x80 then Inr [of_nat c]
      else if c < 0x800 then Inr [of_nat (0xC0 + c div 64), of_nat (0x80 + c mod 64)]
      else if 0xD800 \<le> c \<and> c \<le> 0xDFFF then Inl UnicodeEncodeError
      else if c < 0x10000 then
        Inr [of_nat (0xE0 + c div 4096), of_nat (0x80 + (c div 64) mod 64),
             of_nat (0x80 + c mod 64)]
      else
        Inr [of_nat (0xF0 + c div 262144), of_nat (0x80 + (c div 4096) mod 64),
             of_nat (0x80 + (c div 64) mod 64), of_nat (0x80 + c mod 64)])"

fun encode_str :: "pystr \<Rightarrow> py_exn + byte list" where
  "encode_str [] = Inr []"
| "encode_str (c # cs) =
     (case encode_code_point c of
        Inl e \<Rightarrow> Inl e
      | Inr bs \<Rightarrow> (case encode_str cs of Inl e \<Rightarrow> Inl e | Inr rest \<Rightarrow> Inr (bs @ rest)))"

text \<open>\<^verbatim>\<open>value.encode()\<close>: only \<^verbatim>\<open>str\<close> has the method.\<close>

fun py_encode :: "pyval \<Rightarrow> py_exn + byte list" where
  "py_encode (PStr s) = encode_str s"
| "py_encode v = Inl AttributeError"

subsection \<open>The format specification \<^verbatim>\<open>010d\<close>\<close>

text \<open>
  \<^verbatim>\<open>f"{v:010d}"\<close>: an integer (or \<^verbatim>\<open>bool\<close>) in decimal, zero-padded after the sign to a
  width of at least 10; a \<^verbatim>\<open>str\<close> raises \<^verbatim>\<open>ValueError\<close>, \<^verbatim>\<open>None\<close> raises \<^verbatim>\<open>TypeError\<close>.
\<close>

definition zero_pad :: "nat \<Rightarrow> pystr \<Rightarrow> pystr" where
  "zero_pad w s = replicate (w - length s) 48 @ s"

definition format_010d_int :: "int \<Rightarrow> pystr" where
  "format_010d_int i =
     (if i < 0 then 45 # zero_pad 9 (digits (nat (- i))) else zero_pad 10 (digits (nat i)))"

fun format_010d :: "pyval \<Rightarrow> py_exn + pystr" where
  "format_010d (PInt i) = Inr (format_010d_int i)"
| "format_010d (PBool b) = Inr (format_010d_int (if b then 1 else 0))"
| "format_010d (PStr s) = Inl ValueError"
| "format_010d PNone = Inl TypeError"

section \<open>Dictionaries\<close>

text \<open>
  A dictionary is an association list in insertion order; \<open>map_of\<close> reads it,
  \<^verbatim>\<open>d[k] = v\<close> is \<open>AList.update\<close>, \<^verbatim>\<open>{**a, **b}\<close> is \<open>dict_merge\<close>.
\<close>

type_synonym dict = "(string \<times> pyval) list"

definition subscript :: "dict \<Rightarrow> string \<Rightarrow> py_exn + pyval" where
  "subscript d k = (case map_of d k of None \<Rightarrow> Inl (KeyError k) | Some v \<Rightarrow> Inr v)"

definition dict_get :: "dict \<Rightarrow> string \<Rightarrow> pyval \<Rightarrow> pyval" where
  "dict_get d k dflt = (case map_of d k of None \<Rightarrow> dflt | Some v \<Rightarrow> v)"

definition dict_merge :: "('k \<times> 'v) list \<Rightarrow> ('k \<times> 'v) list \<Rightarrow> ('k \<times> 'v) list" where
  "dict_merge a b = fold (\<lambda>(k, v). AList.update k v) b a"

text \<open>\<^verbatim>\<open>x or y\<close>\<close>

definition py_or :: "pyval \<Rightarrow> pyval \<Rightarrow> pyval" where
  "py_or x y = (if py_truthy x then x else y)"

section \<open>Constants of \<^verbatim>\<open>const.py\<close>\<close>

definition CONF_PROTOCOL :: string where "CONF_PROTOCOL = ''protocol''"
definition PROTOCOL_TCP :: pystr where "PROTOCOL_TCP = ascii ''tcp''"
definition PROTOCOL_RTU :: pystr where "PROTOCOL_RTU = ascii ''rtu''"
definition CONF_HOST :: string where "CONF_HOST = ''host''"
definition CONF_PORT :: string where "CONF_PORT = ''port''"
definition CONF_SERIAL_PORT :: string where "CONF_SERIAL_PORT = ''serial_port''"
definition CONF_BAUDRATE :: string where "CONF_BAUDRATE = ''baudrate''"
definition CONF_PARITY :: string where "CONF_PARITY = ''parity''"
definition CONF_STOPBITS :: string where "CONF_STOPBITS = ''stopbits''"
definition CONF_BYTESIZE :: string where "CONF_BYTESIZE = ''bytesize''"
definition CONF_SLAVE_ID :: string where "CONF_SLAVE_ID = ''slave_id''"
definition CONF_DONGLE_SERIAL :: string where "CONF_DONGLE_SERIAL = ''dongle_serial''"
definition CONF_INVERTER_SERIAL :: string where "CONF_INVERTER_SERIAL = ''inverter_serial''"
definition CONF_POLL_INTERVAL :: string where "CONF_POLL_INTERVAL = ''poll_interval''"
definition CONF_ENTITY_PREFIX :: string where "CONF_ENTITY_PREFIX = ''entity_prefix''"
definition CONF_RATED_POWER :: string where "CONF_RATED_POWER = ''rated_power''"
definition CONF_READ_ONLY :: string where "CONF_READ_ONLY = ''read_only''"
definition CONF_REGISTER_BLOCK_SIZE :: string where
  "CONF_REGISTER_BLOCK_SIZE = ''register_block_size''"
definition CONF_CONNECTION_RETRIES :: string where
  "CONF_CONNECTION_RETRIES = ''connection_retries''"
definition CONF_ENABLE_DEVICE_GROUPING :: string where
  "CONF_ENABLE_DEVICE_GROUPING = ''enable_device_grouping''"

definition DEFAULT_POLL_INTERVAL :: int where "DEFAULT_POLL_INTERVAL = 60"
definition DEFAULT_ENTITY_PREFIX :: pystr where "DEFAULT_ENTITY_PREFIX = []"
definition DEFAULT_RATED_POWER :: int where "DEFAULT_RATED_POWER = 5000"
definition DEFAULT_READ_ONLY :: bool where "DEFAULT_READ_ONLY = False"
definition DEFAULT_PORT :: int where "DEFAULT_PORT = 8000"
definition DEFAULT_REGISTER_BLOCK_SIZE :: int where "DEFAULT_REGISTER_BLOCK_SIZE = 125"
definition DEFAULT_CONNECTION_RETRIES :: int where "DEFAULT_CONNECTION_RETRIES = 3"
definition DEFAULT_ENABLE_DEVICE_GROUPING :: bool where "DEFAULT_ENABLE_DEVICE_GROUPING = True"
definition DEFAULT_BAUDRATE :: int where "DEFAULT_BAUDRATE = 19200"
definition DEFAULT_PARITY :: pystr where "DEFAULT_PARITY = ascii ''N''"
definition DEFAULT_STOPBITS :: int where "DEFAULT_STOPBITS = 1"
definition DEFAULT_BYTESIZE :: int where "DEFAULT_BYTESIZE = 8"
definition DEFAULT_SLAVE_ID :: int where "DEFAULT_SLAVE_ID = 1"
definition BAUDRATE_OPTIONS :: "int list" where
  "BAUDRATE_OPTIONS = [9600, 19200, 38400, 57600, 115200]"
definition PARITY_OPTIONS :: "pystr list" where
  "PARITY_OPTIONS = [ascii ''N'', ascii ''E'', ascii ''O'']"
definition STOPBITS_OPTIONS :: "int list" where "STOPBITS_OPTIONS = [1, 2]"
definition BYTESIZE_OPTIONS :: "int list" where "BYTESIZE_OPTIONS = [7, 8]"
definition RTU_MIN_POLL_INTERVAL :: int where "RTU_MIN_POLL_INTERVAL = 1"
definition LEGACY_REGISTER_BLOCK_SIZE :: int where "LEGACY_REGISTER_BLOCK_SIZE = 40"

lemmas conf_keys =
  CONF_PROTOCOL_def CONF_HOST_def CONF_PORT_def CONF_SERIAL_PORT_def CONF_BAUDRATE_def
  CONF_PARITY_def CONF_STOPBITS_def CONF_BYTESIZE_def CONF_SLAVE_ID_def
  CONF_DONGLE_SERIAL_def CONF_INVERTER_SERIAL_def CONF_POLL_INTERVAL_def
  CONF_ENTITY_PREFIX_def CONF_RATED_POWER_def CONF_READ_ONLY_def
  CONF_REGISTER_BLOCK_SIZE_def CONF_CONNECTION_RETRIES_def CONF_ENABLE_DEVICE_GROUPING_def

lemmas const_values =
  DEFAULT_POLL_INTERVAL_def DEFAULT_ENTITY_PREFIX_def DEFAULT_RATED_POWER_def
  DEFAULT_READ_ONLY_def DEFAULT_PORT_def DEFAULT_REGISTER_BLOCK_SIZE_def
  DEFAULT_CONNECTION_RETRIES_def DEFAULT_ENABLE_DEVICE_GROUPING_def DEFAULT_BAUDRATE_def
  DEFAULT_PARITY_def DEFAULT_STOPBITS_def DEFAULT_BYTESIZE_def DEFAULT_SLAVE_ID_def
  BAUDRATE_OPTIONS_def PARITY_OPTIONS_def STOPBITS_OPTIONS_def BYTESIZE_OPTIONS_def
  RTU_MIN_POLL_INTERVAL_def LEGACY_REGISTER_BLOCK_SIZE_def PROTOCOL_TCP_def PROTOCOL_RTU_def

section \<open>The validators of \<^verbatim>\<open>config_flow.py\<close>\<close>

definition validate_serial :: "pyval \<Rightarrow> py_exn + pystr" where
  "validate_serial value =
     (let value = py_str value in
      if length value \<noteq> 10 then Inl (Invalid ''Serial number must be exactly 10 characters.'')
      else Inr value)"

definition validate_connection_retries :: "(pystr \<Rightarrow> py_exn + int) \<Rightarrow> pyval \<Rightarrow> py_exn + int" where
  "validate_connection_retries int_of_str value =
     (case py_int int_of_str value of
        Inl e \<Rightarrow> Inl e
      | Inr value \<Rightarrow>
          if value < 1 \<or> value > 10
          then Inl (Invalid ''Connection retry attempts must be between 1 and 10.'')
          else Inr value)"

section \<open>The collaborators of the model probes\<close>

text \<open>
  The probes call code that is not part of \<^verbatim>\<open>config_flow.py\<close>: the asyncio stream,
  the pymodbus serial client, and the repository's \<^verbatim>\<open>LxpRequestBuilder\<close>,
  \<^verbatim>\<open>LxpResponse\<close> and \<^verbatim>\<open>decode_model_from_registers\<close>. Each call is a field of the
  environment: what the call returns, or the exception it raises. For a call that returns
  nothing of use, \<open>None\<close> means that it returned and \<open>Some e\<close> that it raised \<open>e\<close>.
\<close>

type_synonym registers = "(int \<times> int) list"

record lxp_response =
  packet_error :: bool
  parsed_values_dictionary :: registers

record modbus_result =
  isError :: bool
  result_registers :: "int list"

record env =
  int_of_str :: "pystr \<Rightarrow> py_exn + int"
  open_connection :: "pyval \<Rightarrow> pyval \<Rightarrow> py_exn option"
  prepare_packet_for_read :: "byte list \<Rightarrow> byte list \<Rightarrow> int \<Rightarrow> int \<Rightarrow> int \<Rightarrow> py_exn + byte list"
  writer_write :: "byte list \<Rightarrow> py_exn option"
  writer_drain :: "py_exn option"
  reader_read :: "int \<Rightarrow> py_exn + byte list"
  writer_close :: "py_exn option"
  writer_wait_closed :: "py_exn option"
  LxpResponse :: "byte list \<Rightarrow> py_exn + lxp_response"
  decode_model_from_registers :: "registers \<Rightarrow> py_exn + pystr option"
  import_ModbusSerialClient :: "py_exn option"
  ModbusSerialClient :: "pyval \<Rightarrow> pyval \<Rightarrow> pyval \<Rightarrow> pyval \<Rightarrow> pyval \<Rightarrow> int \<Rightarrow> py_exn option"
  client_connect :: "py_exn + bool"
  client_read_holding_registers :: "int \<Rightarrow> int \<Rightarrow> pyval \<Rightarrow> py_exn + modbus_result"
  client_close :: "py_exn option"
  comports :: "py_exn + pystr list"
  async_reload :: "py_exn option"

text \<open>The calls that touch a device or the stored configuration, as they are made.\<close>

datatype event =
    OpenConnection pyval pyval
  | WriterWrite "byte list"
  | WriterDrain
  | ReaderRead int
  | WriterClose
  | WriterWaitClosed
  | ClientConnect pyval
  | ReadHoldingRegisters int int pyval
  | ClientClose
  | AsyncUpdateEntry
  | AsyncReload

subsection \<open>Running a probe: the calls made, and the value returned or the exception raised\<close>

type_synonym 'a run = "event list \<times> (py_exn + 'a)"

definition ret :: "'a \<Rightarrow> 'a run" where
  "ret x = ([], Inr x)"

definition pure :: "py_exn + 'a \<Rightarrow> 'a run" where
  "pure r = ([], r)"

definition call :: "event \<Rightarrow> py_exn + 'a \<Rightarrow> 'a run" where
  "call ev r = ([ev], r)"

definition returned :: "py_exn option \<Rightarrow> py_exn + unit" where
  "returned r = (case r of None \<Rightarrow> Inr () | Some e \<Rightarrow> Inl e)"

definition andthen :: "'a run \<Rightarrow> ('a \<Rightarrow> 'b run) \<Rightarrow> 'b run" where
  "andthen m f =
     (case m of
        (es, Inl e) \<Rightarrow> (es, Inl e)
      | (es, Inr x) \<Rightarrow> (case f x of (es', r) \<Rightarrow> (es @ es', r)))"

text \<open>\<^verbatim>\<open>try: m except Exception: h\<close>\<close>

definition try_except :: "'a run \<Rightarrow> (py_exn \<Rightarrow> 'a run) \<Rightarrow> 'a run" where
  "try_except m h =
     (case m of
        (es, Inl e) \<Rightarrow>
          (if is_Exception e then (case h e of (es', r) \<Rightarrow> (es @ es', r)) else (es, Inl e))
      | (es, Inr x) \<Rightarrow> (es, Inr x))"

section \<open>The model probes\<close>

definition get_inverter_model_from_device_tcp ::
  "env \<Rightarrow> pyval \<Rightarrow> pyval \<Rightarrow> pyval \<Rightarrow> pyval \<Rightarrow> (pystr option) run" where
  "get_inverter_model_from_device_tcp env host port dongle_serial inverter_serial =
     try_except
       (andthen (call (OpenConnection host port) (returned (open_connection env host port))) (\<lambda>_.
        andthen (pure (py_encode dongle_serial)) (\<lambda>d.
        andthen (pure (py_encode inverter_serial)) (\<lambda>i.
        andthen (pure (prepare_packet_for_read env d i 7 2 3)) (\<lambda>req.
        andthen (call (WriterWrite req) (returned (writer_write env req))) (\<lambda>_.
        andthen (call WriterDrain (returned (writer_drain env))) (\<lambda>_.
        andthen (call (ReaderRead 512) (reader_read env 512)) (\<lambda>response_buf.
        andthen (call WriterClose (returned (writer_close env))) (\<lambda>_.
        andthen (call WriterWaitClosed (returned (writer_wait_closed env))) (\<lambda>_.
        if response_buf = [] then ret None
        else
          andthen (pure (LxpResponse env response_buf)) (\<lambda>response.
          if packet_error response then ret None
          else
            andthen (pure (decode_model_from_registers env (parsed_values_dictionary response)))
              (\<lambda>model. ret model))))))))))))
       (\<lambda>e. ret None)"

text \<open>\<^verbatim>\<open>{7 + i: result.registers[i] for i in range(len(result.registers))}\<close>\<close>

definition registers_dict :: "int list \<Rightarrow> registers" where
  "registers_dict regs = map (\<lambda>i. (7 + int i, regs ! i)) [0..<length regs]"

definition get_inverter_model_from_device_rtu ::
  "env \<Rightarrow> pyval \<Rightarrow> pyval \<Rightarrow> pyval \<Rightarrow> pyval \<Rightarrow> pyval \<Rightarrow> pyval \<Rightarrow> (pystr option) run" where
  "get_inverter_model_from_device_rtu env serial_port baudrate parity stopbits bytesize slave_id =
     try_except
       (andthen (pure (returned (import_ModbusSerialClient env))) (\<lambda>_.
        andthen (pure (returned
                   (ModbusSerialClient env serial_port baudrate parity stopbits bytesize 3))) (\<lambda>_.
        andthen (call (ClientConnect serial_port) (client_connect env)) (\<lambda>connected.
        if \<not> connected then ret None
        else
          andthen (call (ReadHoldingRegisters 7 2 slave_id)
                     (client_read_holding_registers env 7 2 slave_id)) (\<lambda>result.
          andthen (call ClientClose (returned (client_close env))) (\<lambda>_.
          if isError result then ret None
          else
            andthen (pure (decode_model_from_registers env
                             (registers_dict (result_registers result))))
              (\<lambda>model. ret model)))))))
       (\<lambda>e. ret None)"

section \<open>Form schemas\<close>

text \<open>
  The forms are voluptuous schemas. A key is \<^verbatim>\<open>vol.Required\<close> or \<^verbatim>\<open>vol.Optional\<close> with
  its default (\<open>None\<close> when the marker has none); a validator is a type (\<^verbatim>\<open>str\<close>,
  \<^verbatim>\<open>int\<close>, \<^verbatim>\<open>bool\<close>), \<^verbatim>\<open>vol.Range(min, max)\<close>, \<^verbatim>\<open>vol.In(container)\<close> or
  \<^verbatim>\<open>vol.All(...)\<close>.
\<close>

datatype pytype = TStr | TInt | TBool

datatype validator =
    VType pytype
  | VRange int int
  | VIn "pyval list"
  | VAll "validator list"

datatype marker = Required string "pyval option" | Optional string "pyval option"

type_synonym schema = "(marker \<times> validator) list"

fun marker_key :: "marker \<Rightarrow> string" where
  "marker_key (Required k d) = k"
| "marker_key (Optional k d) = k"

fun marker_default :: "marker \<Rightarrow> pyval option" where
  "marker_default (Required k d) = d"
| "marker_default (Optional k d) = d"

definition schema_validator :: "schema \<Rightarrow> string \<Rightarrow> validator option" where
  "schema_validator sch k = map_of (map (\<lambda>(m, v). (marker_key m, v)) sch) k"

definition schema_default :: "schema \<Rightarrow> string \<Rightarrow> pyval option" where
  "schema_default sch k =
     (case map_of (map (\<lambda>(m, v). (marker_key m, marker_default m)) sch) k of
        None \<Rightarrow> None | Some d \<Rightarrow> d)"

text \<open>
  What voluptuous accepts: a type validator is \<^verbatim>\<open>isinstance\<close>, \<^verbatim>\<open>Range\<close> compares with
  \<^verbatim>\<open>>=\<close> and \<^verbatim>\<open><=\<close> (a value that cannot be compared is refused), \<^verbatim>\<open>In\<close> is
  Python's \<^verbatim>\<open>in\<close> on the container, \<^verbatim>\<open>All\<close> requires every validator in turn.
\<close>

fun isinstance :: "pyval \<Rightarrow> pytype \<Rightarrow> bool" where
  "isinstance (PStr s) TStr = True"
| "isinstance (PInt i) TInt = True"
| "isinstance (PBool b) TInt = True"
| "isinstance (PBool b) TBool = True"
| "isinstance v t = False"

fun accepts :: "validator \<Rightarrow> pyval \<Rightarrow> bool" where
  "accepts (VType t) v = isinstance v t"
| "accepts (VRange lo hi) v = (case int_value v of None \<Rightarrow> False | Some i \<Rightarrow> lo \<le> i \<and> i \<le> hi)"
| "accepts (VIn xs) v = list_ex (\<lambda>x. py_eq v x) xs"
| "accepts (VAll vs) v = list_all (\<lambda>w. accepts w v) vs"

text \<open>The verdict of a schema on the value submitted under a key.\<close>

definition schema_accepts :: "schema \<Rightarrow> string \<Rightarrow> pyval \<Rightarrow> bool" where
  "schema_accepts sch k v = (case schema_validator sch k of None \<Rightarrow> False | Some w \<Rightarrow> accepts w v)"

definition tcp_data_schema :: schema where
  "tcp_data_schema =
    [(Required CONF_HOST None, VType TStr),
     (Required CONF_PORT (Some (PInt DEFAULT_PORT)), VType TInt),
     (Required CONF_DONGLE_SERIAL None, VType TStr),
     (Required CONF_INVERTER_SERIAL None, VType TStr),
     (Required CONF_POLL_INTERVAL (Some (PInt DEFAULT_POLL_INTERVAL)),
        VAll [VType TInt, VRange 2 600]),
     (Optional CONF_ENTITY_PREFIX (Some (PStr DEFAULT_ENTITY_PREFIX)), VType TStr),
     (Required CONF_RATED_POWER (Some (PInt DEFAULT_RATED_POWER)),
        VAll [VType TInt, VRange 1000 100000]),
     (Optional CONF_READ_ONLY (Some (PBool DEFAULT_READ_ONLY)), VType TBool),
     (Optional CONF_REGISTER_BLOCK_SIZE (Some (PInt DEFAULT_REGISTER_BLOCK_SIZE)),
        VIn [PInt DEFAULT_REGISTER_BLOCK_SIZE, PInt LEGACY_REGISTER_BLOCK_SIZE]),
     (Required CONF_CONNECTION_RETRIES (Some (PInt DEFAULT_CONNECTION_RETRIES)),
        VAll [VType TInt, VRange 1 10]),
     (Optional CONF_ENABLE_DEVICE_GROUPING (Some (PBool DEFAULT_ENABLE_DEVICE_GROUPING)),
        VType TBool)]"

definition rtu_data_schema :: "pystr list \<Rightarrow> schema" where
  "rtu_data_schema serial_ports =
    [(Required CONF_SERIAL_PORT None, VIn (map PStr serial_ports)),
     (Required CONF_BAUDRATE (Some (PInt DEFAULT_BAUDRATE)), VIn (map PInt BAUDRATE_OPTIONS)),
     (Required CONF_PARITY (Some (PStr DEFAULT_PARITY)), VIn (map PStr PARITY_OPTIONS)),
     (Required CONF_STOPBITS (Some (PInt DEFAULT_STOPBITS)), VIn (map PInt STOPBITS_OPTIONS)),
     (Required CONF_BYTESIZE (Some (PInt DEFAULT_BYTESIZE)), VIn (map PInt BYTESIZE_OPTIONS)),
     (Required CONF_SLAVE_ID (Some (PInt DEFAULT_SLAVE_ID)), VAll [VType TInt, VRange 1 247]),
     (Required CONF_POLL_INTERVAL (Some (PInt (max DEFAULT_POLL_INTERVAL RTU_MIN_POLL_INTERVAL))),
        VAll [VType TInt, VRange RTU_MIN_POLL_INTERVAL 600]),
     (Optional CONF_ENTITY_PREFIX (Some (PStr DEFAULT_ENTITY_PREFIX)), VType TStr),
     (Required CONF_RATED_POWER (Some (PInt DEFAULT_RATED_POWER)),
        VAll [VType TInt, VRange 1000 100000]),
     (Optional CONF_READ_ONLY (Some (PBool DEFAULT_READ_ONLY)), VType TBool),
     (Optional CONF_REGISTER_BLOCK_SIZE (Some (PInt DEFAULT_REGISTER_BLOCK_SIZE)),
        VIn [PInt DEFAULT_REGISTER_BLOCK_SIZE, PInt LEGACY_REGISTER_BLOCK_SIZE]),
     (Required CONF_CONNECTION_RETRIES (Some (PInt DEFAULT_CONNECTION_RETRIES)),
        VAll [VType TInt, VRange 1 10]),
     (Optional CONF_ENABLE_DEVICE_GROUPING (Some (PBool DEFAULT_ENABLE_DEVICE_GROUPING)),
        VType TBool)]"

text \<open>The schemas of the options flow take their defaults from the current configuration.\<close>

definition tcp_options_schema :: "dict \<Rightarrow> schema" where
  "tcp_options_schema current_config =
    [(Required CONF_HOST (Some (dict_get current_config CONF_HOST PNone)), VType TStr),
     (Required CONF_PORT (Some (dict_get current_config CONF_PORT PNone)), VType TInt),
     (Required CONF_DONGLE_SERIAL (Some (dict_get current_config CONF_DONGLE_SERIAL PNone)),
        VType TStr),
     (Required CONF_INVERTER_SERIAL (Some (dict_get current_config CONF_INVERTER_SERIAL PNone)),
        VType TStr),
     (Required CONF_POLL_INTERVAL (Some (dict_get current_config CONF_POLL_INTERVAL PNone)),
        VAll [VType TInt, VRange 2 600]),
     (Optional CONF_ENTITY_PREFIX (Some (dict_get current_config CONF_ENTITY_PREFIX (PStr []))),
        VAll [VType TStr]),
     (Required CONF_RATED_POWER (Some (dict_get current_config CONF_RATED_POWER PNone)),
        VAll [VType TInt, VRange 1000 100000]),
     (Optional CONF_READ_ONLY
        (Some (dict_get current_config CONF_READ_ONLY (PBool DEFAULT_READ_ONLY))), VType TBool),
     (Optional CONF_REGISTER_BLOCK_SIZE
        (Some (dict_get current_config CONF_REGISTER_BLOCK_SIZE (PInt DEFAULT_REGISTER_BLOCK_SIZE))),
        VIn [PInt DEFAULT_REGISTER_BLOCK_SIZE, PInt LEGACY_REGISTER_BLOCK_SIZE]),
     (Required CONF_CONNECTION_RETRIES
        (Some (dict_get current_config CONF_CONNECTION_RETRIES (PInt DEFAULT_CONNECTION_RETRIES))),
        VAll [VType TInt, VRange 1 10]),
     (Optional CONF_ENABLE_DEVICE_GROUPING
        (Some (dict_get current_config CONF_ENABLE_DEVICE_GROUPING
                 (PBool DEFAULT_ENABLE_DEVICE_GROUPING))),
        VType TBool)]"

definition rtu_options_schema :: "dict \<Rightarrow> pystr list \<Rightarrow> schema" where
  "rtu_options_schema current_config serial_ports =
    [(Required CONF_SERIAL_PORT (Some (dict_get current_config CONF_SERIAL_PORT PNone)),
        VIn (map PStr serial_ports)),
     (Required CONF_BAUDRATE (Some (dict_get current_config CONF_BAUDRATE (PInt DEFAULT_BAUDRATE))),
        VIn (map PInt BAUDRATE_OPTIONS)),
     (Required CONF_PARITY (Some (dict_get current_config CONF_PARITY (PStr DEFAULT_PARITY))),
        VIn (map PStr PARITY_OPTIONS)),
     (Required CONF_STOPBITS (Some (dict_get current_config CONF_STOPBITS (PInt DEFAULT_STOPBITS))),
        VIn (map PInt STOPBITS_OPTIONS)),
     (Required CONF_BYTESIZE (Some (dict_get current_config CONF_BYTESIZE (PInt DEFAULT_BYTESIZE))),
        VIn (map PInt BYTESIZE_OPTIONS)),
     (Required CONF_SLAVE_ID (Some (dict_get current_config CONF_SLAVE_ID (PInt DEFAULT_SLAVE_ID))),
        VAll [VType TInt, VRange 1 247]),
     (Required CONF_POLL_INTERVAL (Some (dict_get current_config CONF_POLL_INTERVAL PNone)),
        VAll [VType TInt, VRange RTU_MIN_POLL_INTERVAL 600]),
     (Optional CONF_ENTITY_PREFIX (Some (dict_get current_config CONF_ENTITY_PREFIX (PStr []))),
        VAll [VType TStr]),
     (Required CONF_RATED_POWER (Some (dict_get current_config CONF_RATED_POWER PNone)),
        VAll [VType TInt, VRange 1000 100000]),
     (Optional CONF_READ_ONLY
        (Some (dict_get current_config CONF_READ_ONLY (PBool DEFAULT_READ_ONLY))), VType TBool),
     (Optional CONF_REGISTER_BLOCK_SIZE
        (Some (dict_get current_config CONF_REGISTER_BLOCK_SIZE (PInt DEFAULT_REGISTER_BLOCK_SIZE))),
        VIn [PInt DEFAULT_REGISTER_BLOCK_SIZE, PInt LEGACY_REGISTER_BLOCK_SIZE]),
     (Required CONF_CONNECTION_RETRIES
        (Some (dict_get current_config CONF_CONNECTION_RETRIES (PInt DEFAULT_CONNECTION_RETRIES))),
        VAll [VType TInt, VRange 1 10]),
     (Optional CONF_ENABLE_DEVICE_GROUPING
        (Some (dict_get current_config CONF_ENABLE_DEVICE_GROUPING
                 (PBool DEFAULT_ENABLE_DEVICE_GROUPING))),
        VType TBool)]"

definition get_serial_ports :: "env \<Rightarrow> pystr list" where
  "get_serial_ports env = (case comports env of Inl e \<Rightarrow> [] | Inr ports \<Rightarrow> ports)"

definition fallback_serial_ports :: "pystr list" where
  "fallback_serial_ports =
     [ascii ''/dev/ttyUSB0'', ascii ''/dev/ttyUSB1'', ascii ''/dev/ttyAMA0'',
      ascii ''COM1'', ascii ''COM2'', ascii ''COM3'']"

definition serial_port_choices :: "env \<Rightarrow> pystr list" where
  "serial_port_choices env =
     (let serial_ports = get_serial_ports env in
      if serial_ports = [] then fallback_serial_ports else serial_ports)"

section \<open>The flows' state\<close>

text \<open>
  A flow step runs on a state: the calls made so far, the step's mutable local variables
  (\<^verbatim>\<open>errors\<close>, the \<^verbatim>\<open>user_input\<close> dictionary, which the steps update in place, and
  \<^verbatim>\<open>model\<close>, unbound until assigned), and the stored config entry. A step returns a
  result or raises; the state survives a raise, as the variables of the frame do when an
  \<^verbatim>\<open>except\<close> clause catches it.
\<close>

record config_entry =
  entry_data :: dict
  entry_options :: dict

record flow_state =
  trace :: "event list"
  var_errors :: "(string \<times> string) list"
  var_user_input :: "dict option"
  var_model :: "pystr option option"
  config_entry :: config_entry

datatype flow_result =
    ShowForm string schema dict "(string \<times> string) list"
  | CreateEntry pyval dict

type_synonym 'a io = "flow_state \<Rightarrow> (py_exn + 'a) \<times> flow_state"

definition io_return :: "'a \<Rightarrow> 'a io" where
  "io_return x = (\<lambda>s. (Inr x, s))"

definition io_pure :: "py_exn + 'a \<Rightarrow> 'a io" where
  "io_pure r = (\<lambda>s. (r, s))"

definition io_get :: "(flow_state \<Rightarrow> 'a) \<Rightarrow> 'a io" where
  "io_get f = (\<lambda>s. (Inr (f s), s))"

definition io_bind :: "'a io \<Rightarrow> ('a \<Rightarrow> 'b io) \<Rightarrow> 'b io" where
  "io_bind m f = (\<lambda>s. case m s of (Inl e, s') \<Rightarrow> (Inl e, s') | (Inr x, s') \<Rightarrow> f x s')"

text \<open>\<^verbatim>\<open>try: m except C: h\<close>, where \<open>catches\<close> says which exceptions are instances of \<open>C\<close>.\<close>

definition io_try :: "'a io \<Rightarrow> (py_exn \<Rightarrow> bool) \<Rightarrow> (py_exn \<Rightarrow> 'a io) \<Rightarrow> 'a io" where
  "io_try m catches h =
     (\<lambda>s. case m s of
        (Inl e, s') \<Rightarrow> (if catches e then h e s' else (Inl e, s'))
      | (Inr x, s') \<Rightarrow> (Inr x, s'))"

definition io_call :: "event \<Rightarrow> py_exn + 'a \<Rightarrow> 'a io" where
  "io_call ev r = (\<lambda>s. (r, s\<lparr>trace := trace s @ [ev]\<rparr>))"

text \<open>\<^verbatim>\<open>await probe(...)\<close>: the probe's calls are made, its value returned (or its exception
  raised).\<close>

definition await :: "'a run \<Rightarrow> 'a io" where
  "await p = (\<lambda>s. (snd p, s\<lparr>trace := trace s @ fst p\<rparr>))"

text \<open>A step starts with a fresh frame, its parameter bound, and \<^verbatim>\<open>errors = {}\<close>.\<close>

definition enter_step :: "dict option \<Rightarrow> unit io" where
  "enter_step user_input =
     (\<lambda>s. (Inr (), s\<lparr>var_errors := [], var_user_input := user_input, var_model := None\<rparr>))"

text \<open>\<^verbatim>\<open>errors[k] = v\<close>\<close>

definition set_error :: "string \<Rightarrow> string \<Rightarrow> unit io" where
  "set_error k v = (\<lambda>s. (Inr (), s\<lparr>var_errors := AList.update k v (var_errors s)\<rparr>))"

definition ui_dict :: "dict io" where
  "ui_dict = (\<lambda>s. case var_user_input s of None \<Rightarrow> (Inl TypeError, s) | Some d \<Rightarrow> (Inr d, s))"

text \<open>\<^verbatim>\<open>user_input[k]\<close>, \<^verbatim>\<open>user_input.get(k, dflt)\<close>, \<^verbatim>\<open>user_input[k] = v\<close>\<close>

definition ui_subscript :: "string \<Rightarrow> pyval io" where
  "ui_subscript k = io_bind ui_dict (\<lambda>d. io_pure (subscript d k))"

definition ui_get :: "string \<Rightarrow> pyval \<Rightarrow> pyval io" where
  "ui_get k dflt = io_bind ui_dict (\<lambda>d. io_return (dict_get d k dflt))"

definition ui_set :: "string \<Rightarrow> pyval \<Rightarrow> unit io" where
  "ui_set k v =
     io_bind ui_dict (\<lambda>d s. (Inr (), s\<lparr>var_user_input := Some (AList.update k v d)\<rparr>))"

definition assign_model :: "pystr option \<Rightarrow> unit io" where
  "assign_model m = (\<lambda>s. (Inr (), s\<lparr>var_model := Some m\<rparr>))"

definition read_model :: "(pystr option) io" where
  "read_model = (\<lambda>s. case var_model s of None \<Rightarrow> (Inl UnboundLocalError, s) | Some m \<Rightarrow> (Inr m, s))"

text \<open>The probe's return value as a Python object.\<close>

fun model_value :: "pystr option \<Rightarrow> pyval" where
  "model_value None = PNone"
| "model_value (Some m) = PStr m"

text \<open>\<^verbatim>\<open>hass.config_entries.async_update_entry(entry, data=d, options=opts)\<close> stores both.\<close>

definition async_update_entry :: "dict \<Rightarrow> dict \<Rightarrow> unit io" where
  "async_update_entry d opts =
     (\<lambda>s. (Inr (), s\<lparr>trace := trace s @ [AsyncUpdateEntry],
                      config_entry := \<lparr>entry_data = d, entry_options = opts\<rparr>\<rparr>))"

section \<open>The setup flow\<close>

text \<open>
  The \<^verbatim>\<open>try\<close> blocks around the validators, which the three steps repeat:
  \<^verbatim>\<open>
  try: validate_serial(user_input[key])
  except vol.Invalid: errors[key] = "invalid_serial"
  try: validate_connection_retries(user_input.get(CONF_CONNECTION_RETRIES, DEFAULT_CONNECTION_RETRIES))
  except vol.Invalid: errors[CONF_CONNECTION_RETRIES] = "invalid_connection_retries"
  \<close>
\<close>

definition check_serial :: "string \<Rightarrow> unit io" where
  "check_serial key =
     io_try
       (io_bind (ui_subscript key) (\<lambda>v.
        io_bind (io_pure (validate_serial v)) (\<lambda>_. io_return ())))
       is_Invalid
       (\<lambda>e. set_error key ''invalid_serial'')"

definition check_connection_retries :: "env \<Rightarrow> unit io" where
  "check_connection_retries env =
     io_try
       (io_bind (ui_get CONF_CONNECTION_RETRIES (PInt DEFAULT_CONNECTION_RETRIES)) (\<lambda>v.
        io_bind (io_pure (validate_connection_retries (int_of_str env) v)) (\<lambda>_. io_return ())))
       is_Invalid
       (\<lambda>e. set_error CONF_CONNECTION_RETRIES ''invalid_connection_retries'')"

text \<open>The body of \<^verbatim>\<open>if user_input is not None:\<close> in \<^verbatim>\<open>async_step_tcp\<close>; \<open>Some r\<close> when
  it returns \<open>r\<close> from the step, \<open>None\<close> when it falls through to the form.\<close>

definition tcp_submit :: "env \<Rightarrow> (flow_result option) io" where
  "tcp_submit env =
     io_bind (check_serial CONF_DONGLE_SERIAL) (\<lambda>_.
     io_bind (check_serial CONF_INVERTER_SERIAL) (\<lambda>_.
     io_bind (check_connection_retries env) (\<lambda>_.
     io_bind (io_get var_errors) (\<lambda>errors.
     if errors = [] then
       io_bind (ui_subscript CONF_HOST) (\<lambda>host.
       io_bind (ui_subscript CONF_PORT) (\<lambda>port.
       io_bind (ui_subscript CONF_DONGLE_SERIAL) (\<lambda>dongle_serial.
       io_bind (ui_subscript CONF_INVERTER_SERIAL) (\<lambda>inverter_serial.
       io_bind (await (get_inverter_model_from_device_tcp env host port
                         dongle_serial inverter_serial)) (\<lambda>model.
       if \<not> py_truthy (model_value model) then
         io_bind (set_error ''base'' ''model_fetch_failed'') (\<lambda>_. io_return None)
       else
         io_bind (ui_set CONF_PROTOCOL (PStr PROTOCOL_TCP)) (\<lambda>_.
         io_bind (ui_set ''model'' (model_value model)) (\<lambda>_.
         io_bind (ui_get CONF_ENTITY_PREFIX PNone) (\<lambda>prefix.
         io_bind ui_dict (\<lambda>user_input.
         io_return (Some (CreateEntry (py_or prefix (PStr (ascii ''Luxpower Inverter'')))
                            user_input)))))))))))
     else io_return None))))"

definition async_step_tcp :: "env \<Rightarrow> dict option \<Rightarrow> flow_result io" where
  "async_step_tcp env user_input =
     io_bind (enter_step user_input) (\<lambda>_.
     io_bind (if user_input \<noteq> None then tcp_submit env else io_return None) (\<lambda>returned.
     case returned of
       Some r \<Rightarrow> io_return r
     | None \<Rightarrow>
         io_bind (io_get var_user_input) (\<lambda>user_input.
         io_bind (io_get var_errors) (\<lambda>errors.
         io_return (ShowForm ''tcp'' tcp_data_schema
                      (case user_input of None \<Rightarrow> [] | Some d \<Rightarrow> d) errors)))))"

definition rtu_submit :: "env \<Rightarrow> (flow_result option) io" where
  "rtu_submit env =
     io_bind (check_connection_retries env) (\<lambda>_.
     io_bind (io_get var_errors) (\<lambda>errors.
     if errors = [] then
       io_try
         (io_bind (ui_subscript CONF_SERIAL_PORT) (\<lambda>serial_port.
          io_bind (ui_subscript CONF_BAUDRATE) (\<lambda>baudrate.
          io_bind (ui_subscript CONF_PARITY) (\<lambda>parity.
          io_bind (ui_subscript CONF_STOPBITS) (\<lambda>stopbits.
          io_bind (ui_subscript CONF_BYTESIZE) (\<lambda>bytesize.
          io_bind (ui_subscript CONF_SLAVE_ID) (\<lambda>slave_id.
          io_bind (await (get_inverter_model_from_device_rtu env serial_port baudrate parity
                            stopbits bytesize slave_id)) (\<lambda>model.
          if \<not> py_truthy (model_value model) then
            io_bind (set_error ''base'' ''model_fetch_failed_rtu'') (\<lambda>_. io_return None)
          else
            io_bind (ui_set CONF_PROTOCOL (PStr PROTOCOL_RTU)) (\<lambda>_.
            io_bind (ui_set ''model'' (model_value model)) (\<lambda>_.
            io_bind (ui_set CONF_DONGLE_SERIAL (PStr (ascii ''RTU_DEVICE''))) (\<lambda>_.
            io_bind (ui_subscript CONF_SLAVE_ID) (\<lambda>slave_id.
            io_bind (io_pure (format_010d slave_id)) (\<lambda>formatted.
            io_bind (ui_set CONF_INVERTER_SERIAL (PStr (ascii ''RTU_'' @ formatted))) (\<lambda>_.
            io_bind (ui_get CONF_ENTITY_PREFIX PNone) (\<lambda>prefix.
            io_bind ui_dict (\<lambda>user_input.
            io_return (Some (CreateEntry (py_or prefix (PStr (ascii ''Luxpower Inverter RTU'')))
                               user_input))))))))))))))))))
         is_Exception
         (\<lambda>e. io_bind (set_error ''base'' ''unknown'') (\<lambda>_. io_return None))
     else io_return None))"

definition async_step_rtu :: "env \<Rightarrow> dict option \<Rightarrow> flow_result io" where
  "async_step_rtu env user_input =
     io_bind (enter_step user_input) (\<lambda>_.
     io_bind (if user_input \<noteq> None then rtu_submit env else io_return None) (\<lambda>returned.
     case returned of
       Some r \<Rightarrow> io_return r
     | None \<Rightarrow>
         io_bind (io_get var_user_input) (\<lambda>user_input.
         io_bind (io_get var_errors) (\<lambda>errors.
         io_return (ShowForm ''rtu'' (rtu_data_schema (serial_port_choices env))
                      (case user_input of None \<Rightarrow> [] | Some d \<Rightarrow> d) errors)))))"

section \<open>The options flow\<close>

definition options_probe_tcp :: "env \<Rightarrow> unit io" where
  "options_probe_tcp env =
     io_bind (check_serial CONF_DONGLE_SERIAL) (\<lambda>_.
     io_bind (check_serial CONF_INVERTER_SERIAL) (\<lambda>_.
     io_bind (io_get var_errors) (\<lambda>errors.
     if errors = [] then
       io_bind (ui_subscript CONF_HOST) (\<lambda>host.
       io_bind (ui_subscript CONF_PORT) (\<lambda>port.
       io_bind (ui_subscript CONF_DONGLE_SERIAL) (\<lambda>dongle_serial.
       io_bind (ui_subscript CONF_INVERTER_SERIAL) (\<lambda>inverter_serial.
       io_bind (await (get_inverter_model_from_device_tcp env host port
                         dongle_serial inverter_serial)) (\<lambda>model.
       io_bind (assign_model model) (\<lambda>_.
       if \<not> py_truthy (model_value model) then set_error ''base'' ''model_fetch_failed''
       else io_return ()))))))
     else io_return ())))"

definition options_probe_rtu :: "env \<Rightarrow> unit io" where
  "options_probe_rtu env =
     io_bind (ui_subscript CONF_SERIAL_PORT) (\<lambda>serial_port.
     io_bind (ui_subscript CONF_BAUDRATE) (\<lambda>baudrate.
     io_bind (ui_subscript CONF_PARITY) (\<lambda>parity.
     io_bind (ui_subscript CONF_STOPBITS) (\<lambda>stopbits.
     io_bind (ui_subscript CONF_BYTESIZE) (\<lambda>bytesize.
     io_bind (ui_subscript CONF_SLAVE_ID) (\<lambda>slave_id.
     io_bind (await (get_inverter_model_from_device_rtu env serial_port baudrate parity
                       stopbits bytesize slave_id)) (\<lambda>model.
     io_bind (assign_model model) (\<lambda>_.
     if \<not> py_truthy (model_value model) then set_error ''base'' ''model_fetch_failed_rtu''
     else io_return ()))))))))"

definition options_store :: "env \<Rightarrow> dict \<Rightarrow> (flow_result option) io" where
  "options_store env current_config =
     io_bind (io_get var_errors) (\<lambda>errors.
     if errors = [] then
       io_bind ui_dict (\<lambda>user_input.
       io_bind read_model (\<lambda>model.
       let new_data = dict_merge current_config user_input;
           new_data = AList.update ''model'' (model_value model) new_data
       in
       io_bind (async_update_entry new_data []) (\<lambda>_.
       io_bind (io_call AsyncReload (returned (async_reload env))) (\<lambda>_.
       io_return (Some (CreateEntry (PStr []) []))))))
     else io_return None)"

definition options_submit :: "env \<Rightarrow> dict \<Rightarrow> pyval \<Rightarrow> (flow_result option) io" where
  "options_submit env current_config protocol =
     io_try
       (io_bind (check_connection_retries env) (\<lambda>_.
        io_bind (io_get var_errors) (\<lambda>errors.
        if errors = [] then
          io_bind (if py_eq protocol (PStr PROTOCOL_TCP) then options_probe_tcp env
                   else options_probe_rtu env) (\<lambda>_.
          options_store env current_config)
        else io_return None)))
       is_Exception
       (\<lambda>e. io_bind (if is_Invalid e then set_error ''base'' ''invalid_serial''
                     else set_error ''base'' ''unknown'') (\<lambda>_. io_return None))"

definition async_step_init :: "env \<Rightarrow> dict option \<Rightarrow> flow_result io" where
  "async_step_init env user_input =
     io_bind (enter_step user_input) (\<lambda>_.
     io_bind (io_get (\<lambda>s. dict_merge (entry_data (config_entry s))
                             (entry_options (config_entry s)))) (\<lambda>current_config.
     let protocol = dict_get current_config CONF_PROTOCOL (PStr PROTOCOL_TCP) in
     io_bind (if user_input \<noteq> None then options_submit env current_config protocol
              else io_return None) (\<lambda>returned.
     case returned of
       Some r \<Rightarrow> io_return r
     | None \<Rightarrow>
         io_bind (io_get var_errors) (\<lambda>errors.
         io_return (ShowForm ''init''
                      (if py_eq protocol (PStr PROTOCOL_TCP) then tcp_options_schema current_config
                       else rtu_options_schema current_config (serial_port_choices env))
                      current_config errors)))))"

section \<open>Reconfiguration as one update of the stored entry\<close>

text \<open>
  The specification describes reconfiguration as an operation on the stored
  configuration: the previous configuration overlaid with the submitted fields and the
  freshly probed model, accepted only when every validation and the probe succeed, and no
  change otherwise. The definitions of this section state that description directly;
  \<open>accepted_model\<close> is the model of a submission that passes, \<open>reconfigured\<close> the entry
  that results. They are compared with \<^verbatim>\<open>async_step_init\<close> below.
\<close>

definition probed_model :: "py_exn + pystr option \<Rightarrow> pystr option" where
  "probed_model r = (case r of Inr (Some m) \<Rightarrow> if m \<noteq> [] then Some m else None | _ \<Rightarrow> None)"

definition accepted_tcp :: "env \<Rightarrow> dict \<Rightarrow> pystr option" where
  "accepted_tcp env ui =
     Option.bind (map_of ui CONF_DONGLE_SERIAL) (\<lambda>dongle_serial.
     Option.bind (map_of ui CONF_INVERTER_SERIAL) (\<lambda>inverter_serial.
     Option.bind (map_of ui CONF_HOST) (\<lambda>host.
     Option.bind (map_of ui CONF_PORT) (\<lambda>port.
     if length (py_str dongle_serial) = 10 \<and> length (py_str inverter_serial) = 10
     then probed_model (snd (get_inverter_model_from_device_tcp env host port
                               dongle_serial inverter_serial))
     else None))))"

definition accepted_rtu :: "env \<Rightarrow> dict \<Rightarrow> pystr option" where
  "accepted_rtu env ui =
     Option.bind (map_of ui CONF_SERIAL_PORT) (\<lambda>serial_port.
     Option.bind (map_of ui CONF_BAUDRATE) (\<lambda>baudrate.
     Option.bind (map_of ui CONF_PARITY) (\<lambda>parity.
     Option.bind (map_of ui CONF_STOPBITS) (\<lambda>stopbits.
     Option.bind (map_of ui CONF_BYTESIZE) (\<lambda>bytesize.
     Option.bind (map_of ui CONF_SLAVE_ID) (\<lambda>slave_id.
     probed_model (snd (get_inverter_model_from_device_rtu env serial_port baudrate
                          parity stopbits bytesize slave_id))))))))"

definition accepted_model :: "env \<Rightarrow> dict \<Rightarrow> dict \<Rightarrow> pystr option" where
  "accepted_model env current_config ui =
     (case validate_connection_retries (int_of_str env)
             (dict_get ui CONF_CONNECTION_RETRIES (PInt DEFAULT_CONNECTION_RETRIES)) of
        Inl e \<Rightarrow> None
      | Inr n \<Rightarrow>
          if py_eq (dict_get current_config CONF_PROTOCOL (PStr PROTOCOL_TCP)) (PStr PROTOCOL_TCP)
          then accepted_tcp env ui
          else accepted_rtu env ui)"

definition reconfigured :: "env \<Rightarrow> config_entry \<Rightarrow> dict \<Rightarrow> config_entry" where
  "reconfigured env entry ui =
     (let current_config = dict_merge (entry_data entry) (entry_options entry) in
      case accepted_model env current_config ui of
        None \<Rightarrow> entry
      | Some m \<Rightarrow>
          \<lparr>entry_data = AList.update ''model'' (PStr m) (dict_merge current_config ui),
           entry_options = []\<rparr>)"

text \<open>The calls that store and reload an accepted reconfiguration.\<close>

definition update_calls :: "pystr option \<Rightarrow> event list" where
  "update_calls acc = (case acc of None \<Rightarrow> [] | Some m \<Rightarrow> [AsyncUpdateEntry, AsyncReload])"

text \<open>What a probing branch of the options flow leaves behind.\<close>

definition branch_outcome ::
  "dict \<Rightarrow> flow_state \<Rightarrow> pystr option \<Rightarrow> (py_exn + unit) \<times> flow_state \<Rightarrow> bool" where
  "branch_outcome ui s acc rs =
     (case rs of (r, s') \<Rightarrow>
        config_entry s' = config_entry s \<and> var_user_input s' = Some ui \<and>
        (\<exists>pes. AsyncUpdateEntry \<notin> set pes \<and> trace s' = trace s @ pes) \<and>
        (case acc of
           Some m \<Rightarrow> r = Inr () \<and> var_errors s' = [] \<and> var_model s' = Some (Some m)
         | None \<Rightarrow> r \<noteq> Inr () \<or> var_errors s' \<noteq> []))"

section \<open>Example environments and submissions\<close>

text \<open>
  Concrete collaborators on which the theorems below are evaluated. In \<open>example_env\<close>
  every call succeeds: the device answers with one byte, the response parses without the
  error flag and the decoder names a model.
\<close>

definition example_env :: env where
  "example_env =
     \<lparr>int_of_str = (\<lambda>s. Inl ValueError),
      open_connection = (\<lambda>host port. None),
      prepare_packet_for_read = (\<lambda>d i start count function_code. Inr (d @ i)),
      writer_write = (\<lambda>req. None),
      writer_drain = None,
      reader_read = (\<lambda>n. Inr [1]),
      writer_close = None,
      writer_wait_closed = None,
      LxpResponse = (\<lambda>buf. Inr \<lparr>packet_error = False, parsed_values_dictionary = [(7, 1), (8, 2)]\<rparr>),
      decode_model_from_registers = (\<lambda>regs. Inr (Some (ascii ''AAAA''))),
      import_ModbusSerialClient = None,
      ModbusSerialClient = (\<lambda>port baudrate parity stopbits bytesize timeout. None),
      client_connect = Inr True,
      client_read_holding_registers =
        (\<lambda>address count slave. Inr \<lparr>isError = False, result_registers = [1, 2]\<rparr>),
      client_close = None,
      comports = Inr [],
      async_reload = None\<rparr>"

text \<open>The device closes the stream without answering.\<close>

definition env_empty_read :: env where
  "env_empty_read = example_env\<lparr>reader_read := (\<lambda>n. Inr [])\<rparr>"

text \<open>The response parses with its error flag set; the serial client returns an error
  response.\<close>

definition env_error_response :: env where
  "env_error_response =
     example_env
       \<lparr>LxpResponse := (\<lambda>buf. Inr \<lparr>packet_error = True, parsed_values_dictionary = []\<rparr>),
        client_read_holding_registers :=
          (\<lambda>address count slave. Inr \<lparr>isError = True, result_registers = []\<rparr>)\<rparr>"

text \<open>The connection opens, and the read raises.\<close>

definition env_read_raises :: env where
  "env_read_raises =
     example_env
       \<lparr>reader_read := (\<lambda>n. Inl (OtherException ''ConnectionResetError'')),
        client_read_holding_registers :=
          (\<lambda>address count slave. Inl (OtherException ''ModbusIOException''))\<rparr>"

text \<open>No connection can be opened.\<close>

definition env_unreachable :: env where
  "env_unreachable =
     example_env
       \<lparr>open_connection := (\<lambda>host port. Some (OtherException ''ConnectionRefusedError'')),
        client_connect := Inr False\<rparr>"

text \<open>
  A decoder that reads the register map: it knows the model whose code is 1, 2 in the
  registers 7 and 8. In \<open>env_unknown_code\<close> the device answers with another code; in
  \<open>env_decoder_raises\<close> the decoder raises.
\<close>

definition env_decoding :: env where
  "env_decoding =
     example_env
       \<lparr>decode_model_from_registers :=
          (\<lambda>regs. if map_of regs 7 = Some 1 \<and> map_of regs 8 = Some 2
                  then Inr (Some (ascii ''AAAA'')) else Inr None)\<rparr>"

definition env_unknown_code :: env where
  "env_unknown_code =
     env_decoding
       \<lparr>LxpResponse :=
          (\<lambda>buf. Inr \<lparr>packet_error = False, parsed_values_dictionary = [(7, 9), (8, 9)]\<rparr>),
        client_read_holding_registers :=
          (\<lambda>address count slave. Inr \<lparr>isError = False, result_registers = [9, 9]\<rparr>)\<rparr>"

definition env_decoder_raises :: env where
  "env_decoder_raises =
     example_env\<lparr>decode_model_from_registers := (\<lambda>regs. Inl (KeyError ''model''))\<rparr>"

definition example_host :: pyval where "example_host = PStr (ascii ''10.0.0.5'')"
definition example_port :: pyval where "example_port = PInt 8000"
definition example_dongle :: pyval where "example_dongle = PStr (ascii ''BA12345678'')"
definition example_inverter :: pyval where "example_inverter = PStr (ascii ''CD12345678'')"
definition example_serial_port :: pyval where "example_serial_port = PStr (ascii ''/dev/ttyUSB0'')"

text \<open>A flow that has not run yet, and submissions of the two setup forms.\<close>

definition initial_state :: flow_state where
  "initial_state = \<lparr>trace = [], var_errors = [], var_user_input = None, var_model = None,
      config_entry = \<lparr>entry_data = [], entry_options = []\<rparr>\<rparr>"

definition example_tcp_input :: dict where
  "example_tcp_input =
     [(CONF_HOST, example_host), (CONF_PORT, example_port),
      (CONF_DONGLE_SERIAL, example_dongle), (CONF_INVERTER_SERIAL, example_inverter),
      (CONF_POLL_INTERVAL, PInt 60), (CONF_ENTITY_PREFIX, PStr []),
      (CONF_RATED_POWER, PInt 5000), (CONF_READ_ONLY, PBool False),
      (CONF_REGISTER_BLOCK_SIZE, PInt 125), (CONF_CONNECTION_RETRIES, PInt 3),
      (CONF_ENABLE_DEVICE_GROUPING, PBool True)]"

definition short_serial_input :: dict where
  "short_serial_input =
     [(CONF_HOST, example_host), (CONF_PORT, example_port),
      (CONF_DONGLE_SERIAL, PStr (ascii ''SHORT'')), (CONF_INVERTER_SERIAL, example_inverter),
      (CONF_POLL_INTERVAL, PInt 60), (CONF_ENTITY_PREFIX, PStr []),
      (CONF_RATED_POWER, PInt 5000), (CONF_READ_ONLY, PBool False),
      (CONF_REGISTER_BLOCK_SIZE, PInt 125), (CONF_CONNECTION_RETRIES, PInt 3),
      (CONF_ENABLE_DEVICE_GROUPING, PBool True)]"



definition example_tcp_entry :: dict where
  "example_tcp_entry =
     example_tcp_input @ [(CONF_PROTOCOL, PStr PROTOCOL_TCP), (''model'', PStr (ascii ''AAAA''))]"

text \<open>A stored TCP entry and a submission of the options form that changes host and poll
  interval.\<close>

definition stored_state :: flow_state where
  "stored_state =
     initial_state\<lparr>config_entry := \<lparr>entry_data = example_tcp_entry, entry_options = []\<rparr>\<rparr>"

definition reconfigure_input :: dict where
  "reconfigure_input =
     [(CONF_HOST, PStr (ascii ''10.0.0.9'')), (CONF_PORT, example_port),
      (CONF_DONGLE_SERIAL, example_dongle), (CONF_INVERTER_SERIAL, example_inverter),
      (CONF_POLL_INTERVAL, PInt 30), (CONF_ENTITY_PREFIX, PStr []),
      (CONF_RATED_POWER, PInt 5000), (CONF_READ_ONLY, PBool False),
      (CONF_REGISTER_BLOCK_SIZE, PInt 125), (CONF_CONNECTION_RETRIES, PInt 3),
      (CONF_ENABLE_DEVICE_GROUPING, PBool True)]"

definition reconfigured_data :: dict where
  "reconfigured_data =
     reconfigure_input @ [(CONF_PROTOCOL, PStr PROTOCOL_TCP), (''model'', PStr (ascii ''AAAA''))]"

section \<open>Properties of the validators\<close>

text \<open>
  Claim C7. \<^verbatim>\<open>validate_connection_retries\<close> returns the integer its argument converts
  to when that integer lies in 1..10, and raises \<^verbatim>\<open>vol.Invalid\<close> when it is less than 1
  or greater than 10.
\<close>

theorem validate_connection_retries_range:
  "py_int ios v = Inr n \<Longrightarrow>
     (1 \<le> n \<and> n \<le> 10 \<longrightarrow> validate_connection_retries ios v = Inr n) \<and>
     (n < 1 \<or> n > 10 \<longrightarrow>
        validate_connection_retries ios v =
          Inl (Invalid ''Connection retry attempts must be between 1 and 10.''))"
  by (auto simp: validate_connection_retries_def)

theorem validate_connection_retries_range_witness:
  "py_int (\<lambda>s. Inl ValueError) (PInt 3) = Inr 3 \<and>
   validate_connection_retries (\<lambda>s. Inl ValueError) (PInt 3) = Inr 3 \<and>
   py_int (\<lambda>s. Inl ValueError) (PBool False) = Inr 0 \<and>
   validate_connection_retries (\<lambda>s. Inl ValueError) (PBool False) =
     Inl (Invalid ''Connection retry attempts must be between 1 and 10.'') \<and>
   py_int (\<lambda>s. Inl ValueError) (PInt 11) = Inr 11 \<and>
   validate_connection_retries (\<lambda>s. Inl ValueError) (PInt 11) =
     Inl (Invalid ''Connection retry attempts must be between 1 and 10.'')"
  using validate_connection_retries_range [of "\<lambda>s. Inl ValueError" "PInt 3" 3]
    validate_connection_retries_range [of "\<lambda>s. Inl ValueError" "PBool False" 0]
    validate_connection_retries_range [of "\<lambda>s. Inl ValueError" "PInt 11" 11]
  by simp

text \<open>
  Claim C10. \<^verbatim>\<open>validate_serial\<close> renders its argument with \<^verbatim>\<open>str()\<close> and accepts it,
  returning the rendering, exactly when the rendering has 10 characters: the 10-digit
  integer 1234567890 is accepted as the string of its digits, and so is a string of ten
  times the character U+00E4, whose UTF-8 encoding has 20 bytes.
\<close>

theorem validate_serial_counts_characters:
  "validate_serial v =
     (if length (py_str v) = 10 then Inr (py_str v)
      else Inl (Invalid ''Serial number must be exactly 10 characters.'')) \<and>
   validate_serial (PInt 1234567890) = Inr (ascii ''1234567890'') \<and>
   validate_serial (PStr (replicate 10 228)) = Inr (replicate 10 228) \<and>
   map_sum id length (py_encode (PStr (replicate 10 228))) = Inr 20"
proof -
  have a: "\<And>v. validate_serial v =
     (if length (py_str v) = 10 then Inr (py_str v)
      else Inl (Invalid ''Serial number must be exactly 10 characters.''))"
    by (simp add: validate_serial_def Let_def)
  have d: "str_int 1234567890 = [49, 50, 51, 52, 53, 54, 55, 56, 57, 48]"
    by (simp add: str_int_def digits.simps ascii_def)
  have b: "validate_serial (PInt 1234567890) = Inr (ascii ''1234567890'')"
    by (simp add: a d ascii_def)
  have c: "validate_serial (PStr (replicate 10 228)) = Inr (replicate 10 228)"
    by (simp add: a)
  have r: "replicate 10 (228::nat) = [228, 228, 228, 228, 228, 228, 228, 228, 228, 228]"
    by (simp add: numeral_eq_Suc)
  have e: "map_sum id length (py_encode (PStr (replicate 10 228))) = Inr 20"
    unfolding r by (simp add: encode_code_point_def)
  show ?thesis using a b c e by blast
qed

section \<open>Properties of the model probes\<close>

lemmas run_defs =
  ret_def pure_def call_def returned_def andthen_def try_except_def is_Exception_def

lemmas example_env_defs =
  example_env_def env_empty_read_def env_error_response_def env_read_raises_def
  env_unreachable_def env_decoding_def env_unknown_code_def env_decoder_raises_def
  example_host_def example_port_def example_dongle_def
  example_inverter_def example_serial_port_def

lemma try_except_returns: "\<exists>r. snd (try_except m (\<lambda>e. ret x)) = Inr r"
  by (cases m) (auto simp: run_defs split: sum.splits)

lemma tcp_probe_returns:
  "\<exists>r. snd (get_inverter_model_from_device_tcp env host port dongle inverter) = Inr r"
  unfolding get_inverter_model_from_device_tcp_def by (rule try_except_returns)

lemma rtu_probe_returns:
  "\<exists>r. snd (get_inverter_model_from_device_rtu env sp baud par stop bsize slave) = Inr r"
  unfolding get_inverter_model_from_device_rtu_def by (rule try_except_returns)

text \<open>A model is returned only at the end of a complete exchange.\<close>

lemma tcp_probe_Some:
  "snd (get_inverter_model_from_device_tcp env host port dongle inverter) = Inr (Some m) \<Longrightarrow>
   \<exists>db ib req buf resp.
     open_connection env host port = None \<and> py_encode dongle = Inr db \<and>
     py_encode inverter = Inr ib \<and> prepare_packet_for_read env db ib 7 2 3 = Inr req \<and>
     writer_write env req = None \<and> writer_drain env = None \<and>
     reader_read env 512 = Inr buf \<and> buf \<noteq> [] \<and> writer_close env = None \<and>
     writer_wait_closed env = None \<and> LxpResponse env buf = Inr resp \<and> \<not> packet_error resp \<and>
     decode_model_from_registers env (parsed_values_dictionary resp) = Inr (Some m)"
  unfolding get_inverter_model_from_device_tcp_def
  by (auto simp: run_defs split: sum.splits option.splits prod.splits if_splits)

lemma rtu_probe_Some:
  "snd (get_inverter_model_from_device_rtu env sp baud par stop bsize slave) = Inr (Some m) \<Longrightarrow>
   \<exists>res.
     import_ModbusSerialClient env = None \<and> ModbusSerialClient env sp baud par stop bsize 3 = None \<and>
     client_connect env = Inr True \<and>
     client_read_holding_registers env 7 2 slave = Inr res \<and> client_close env = None \<and>
     \<not> isError res \<and>
     decode_model_from_registers env (registers_dict (result_registers res)) = Inr (Some m)"
  unfolding get_inverter_model_from_device_rtu_def
  by (auto simp: run_defs split: sum.splits option.splits prod.splits if_splits)

lemma probe_result_cases:
  "(\<exists>r. x = Inr r) \<Longrightarrow> (\<And>m. x \<noteq> Inr (Some m)) \<Longrightarrow> x = Inr (None :: pystr option)"
  by (metis option.exhaust)

text \<open>
  Claim C2. Whatever the connection does, both probes return a model string or
  \<^verbatim>\<open>None\<close> and raise nothing: a connection that cannot be opened, an empty read, a
  response with the error flag, and an exception raised by the read all give \<^verbatim>\<open>None\<close>.
\<close>

theorem probes_return_model_or_none:
  "(\<exists>r. snd (get_inverter_model_from_device_tcp env host port dongle inverter) = Inr r) \<and>
   (\<exists>r. snd (get_inverter_model_from_device_rtu env sp baud par stop bsize slave) = Inr r) \<and>
   (open_connection env host port \<noteq> None \<longrightarrow>
      snd (get_inverter_model_from_device_tcp env host port dongle inverter) = Inr None) \<and>
   (reader_read env 512 = Inr [] \<longrightarrow>
      snd (get_inverter_model_from_device_tcp env host port dongle inverter) = Inr None) \<and>
   (\<forall>buf resp. reader_read env 512 = Inr buf \<and> LxpResponse env buf = Inr resp \<and>
        packet_error resp \<longrightarrow>
      snd (get_inverter_model_from_device_tcp env host port dongle inverter) = Inr None) \<and>
   (\<forall>e. reader_read env 512 = Inl e \<longrightarrow>
      snd (get_inverter_model_from_device_tcp env host port dongle inverter) = Inr None) \<and>
   (client_connect env \<noteq> Inr True \<longrightarrow>
      snd (get_inverter_model_from_device_rtu env sp baud par stop bsize slave) = Inr None) \<and>
   (\<forall>res. client_read_holding_registers env 7 2 slave = Inr res \<and> isError res \<longrightarrow>
      snd (get_inverter_model_from_device_rtu env sp baud par stop bsize slave) = Inr None) \<and>
   (\<forall>e. client_read_holding_registers env 7 2 slave = Inl e \<longrightarrow>
      snd (get_inverter_model_from_device_rtu env sp baud par stop bsize slave) = Inr None)"
proof -
  let ?tcp = "snd (get_inverter_model_from_device_tcp env host port dongle inverter)"
  let ?rtu = "snd (get_inverter_model_from_device_rtu env sp baud par stop bsize slave)"
  have t: "\<exists>r. ?tcp = Inr r" by (rule tcp_probe_returns)
  have r: "\<exists>r. ?rtu = Inr r" by (rule rtu_probe_returns)
  have t1: "?tcp = Inr None" if "open_connection env host port \<noteq> None"
    using that tcp_probe_Some [of env host port dongle inverter] by (intro probe_result_cases [OF t]) auto
  have t2: "?tcp = Inr None" if "reader_read env 512 = Inr []"
    using that tcp_probe_Some [of env host port dongle inverter] by (intro probe_result_cases [OF t]) auto
  have t3: "?tcp = Inr None"
    if "reader_read env 512 = Inr buf \<and> LxpResponse env buf = Inr resp \<and> packet_error resp"
    for buf resp
    using that tcp_probe_Some [of env host port dongle inverter] by (intro probe_result_cases [OF t]) auto
  have t4: "?tcp = Inr None" if "reader_read env 512 = Inl e" for e
    using that tcp_probe_Some [of env host port dongle inverter] by (intro probe_result_cases [OF t]) auto
  have r1: "?rtu = Inr None" if "client_connect env \<noteq> Inr True"
    using that rtu_probe_Some [of env sp baud par stop bsize slave]
    by (intro probe_result_cases [OF r]) auto
  have r2: "?rtu = Inr None" if "client_read_holding_registers env 7 2 slave = Inr res \<and> isError res"
    for res
    using that rtu_probe_Some [of env sp baud par stop bsize slave]
    by (intro probe_result_cases [OF r]) auto
  have r3: "?rtu = Inr None" if "client_read_holding_registers env 7 2 slave = Inl e" for e
    using that rtu_probe_Some [of env sp baud par stop bsize slave]
    by (intro probe_result_cases [OF r]) auto
  show ?thesis using t r t1 t2 t3 t4 r1 r2 r3 by blast
qed

theorem probes_return_model_or_none_witness:
  "open_connection env_unreachable example_host example_port \<noteq> None \<and>
   snd (get_inverter_model_from_device_tcp env_unreachable example_host example_port
          example_dongle example_inverter) = Inr None \<and>
   reader_read env_empty_read 512 = Inr [] \<and>
   snd (get_inverter_model_from_device_tcp env_empty_read example_host example_port
          example_dongle example_inverter) = Inr None \<and>
   reader_read env_error_response 512 = Inr [1] \<and>
   map_sum id packet_error (LxpResponse env_error_response [1]) = Inr True \<and>
   snd (get_inverter_model_from_device_tcp env_error_response example_host example_port
          example_dongle example_inverter) = Inr None \<and>
   reader_read env_read_raises 512 = Inl (OtherException ''ConnectionResetError'') \<and>
   snd (get_inverter_model_from_device_tcp env_read_raises example_host example_port
          example_dongle example_inverter) = Inr None \<and>
   client_connect env_unreachable \<noteq> Inr True \<and>
   snd (get_inverter_model_from_device_rtu env_unreachable example_serial_port (PInt 19200)
          (PStr (ascii ''N'')) (PInt 1) (PInt 8) (PInt 1)) = Inr None \<and>
   map_sum id isError (client_read_holding_registers env_error_response 7 2 (PInt 1)) = Inr True \<and>
   snd (get_inverter_model_from_device_rtu env_error_response example_serial_port (PInt 19200)
          (PStr (ascii ''N'')) (PInt 1) (PInt 8) (PInt 1)) = Inr None \<and>
   client_read_holding_registers env_read_raises 7 2 (PInt 1) =
     Inl (OtherException ''ModbusIOException'') \<and>
   snd (get_inverter_model_from_device_rtu env_read_raises example_serial_port (PInt 19200)
          (PStr (ascii ''N'')) (PInt 1) (PInt 8) (PInt 1)) = Inr None"
  using
    probes_return_model_or_none [of env_unreachable example_host example_port
      example_dongle example_inverter example_serial_port "PInt 19200" "PStr (ascii ''N'')"
      "PInt 1" "PInt 8" "PInt 1"]
    probes_return_model_or_none [of env_empty_read example_host example_port
      example_dongle example_inverter example_serial_port "PInt 19200" "PStr (ascii ''N'')"
      "PInt 1" "PInt 8" "PInt 1"]
    probes_return_model_or_none [of env_error_response example_host example_port
      example_dongle example_inverter example_serial_port "PInt 19200" "PStr (ascii ''N'')"
      "PInt 1" "PInt 8" "PInt 1"]
    probes_return_model_or_none [of env_read_raises example_host example_port
      example_dongle example_inverter example_serial_port "PInt 19200" "PStr (ascii ''N'')"
      "PInt 1" "PInt 8" "PInt 1"]
  by (simp add: env_unreachable_def env_empty_read_def env_error_response_def
        env_read_raises_def example_env_def)

subsection \<open>Closing the connection\<close>

lemma tcp_probe_trace_after_read:
  "open_connection env host port = None \<Longrightarrow> py_encode dongle = Inr db \<Longrightarrow>
   py_encode inverter = Inr ib \<Longrightarrow> prepare_packet_for_read env db ib 7 2 3 = Inr req \<Longrightarrow>
   writer_write env req = None \<Longrightarrow> writer_drain env = None \<Longrightarrow>
   reader_read env 512 = Inr buf \<Longrightarrow>
   \<exists>rest. fst (get_inverter_model_from_device_tcp env host port dongle inverter) =
     [OpenConnection host port, WriterWrite req, WriterDrain, ReaderRead 512, WriterClose] @ rest"
  unfolding get_inverter_model_from_device_tcp_def
  by (auto simp: run_defs split: sum.splits option.splits prod.splits if_splits)

lemma rtu_probe_trace_after_read:
  "import_ModbusSerialClient env = None \<Longrightarrow>
   ModbusSerialClient env sp baud par stop bsize 3 = None \<Longrightarrow>
   client_connect env = Inr True \<Longrightarrow> client_read_holding_registers env 7 2 slave = Inr res \<Longrightarrow>
   fst (get_inverter_model_from_device_rtu env sp baud par stop bsize slave) =
     [ClientConnect sp, ReadHoldingRegisters 7 2 slave, ClientClose]"
  unfolding get_inverter_model_from_device_rtu_def
  by (auto simp: run_defs split: sum.splits option.splits prod.splits if_splits)

text \<open>
  Claim C3: every path of a probe that opens a connection closes it before returning,
  also when an exception is raised mid-exchange. The probes do call \<^verbatim>\<open>close()\<close>, and
  when every call succeeds the connection is closed right after the read. When the read
  raises after the connection was opened, the TCP probe returns \<^verbatim>\<open>None\<close> without
  \<^verbatim>\<open>writer.close()\<close>, and the RTU probe returns \<^verbatim>\<open>None\<close> without \<^verbatim>\<open>client.close()\<close>:
  the connection is left open.
\<close>

theorem probe_leaves_connection_open:
  "fst (get_inverter_model_from_device_tcp example_env example_host example_port
          example_dongle example_inverter) =
     [OpenConnection example_host example_port,
      WriterWrite [66, 65, 49, 50, 51, 52, 53, 54, 55, 56, 67, 68, 49, 50, 51, 52, 53, 54, 55, 56],
      WriterDrain, ReaderRead 512, WriterClose, WriterWaitClosed] \<and>
   fst (get_inverter_model_from_device_rtu example_env example_serial_port (PInt 19200)
          (PStr (ascii ''N'')) (PInt 1) (PInt 8) (PInt 1)) =
     [ClientConnect example_serial_port, ReadHoldingRegisters 7 2 (PInt 1), ClientClose] \<and>
   open_connection env_read_raises example_host example_port = None \<and>
   reader_read env_read_raises 512 = Inl (OtherException ''ConnectionResetError'') \<and>
   get_inverter_model_from_device_tcp env_read_raises example_host example_port
       example_dongle example_inverter =
     ([OpenConnection example_host example_port,
       WriterWrite [66, 65, 49, 50, 51, 52, 53, 54, 55, 56, 67, 68, 49, 50, 51, 52, 53, 54, 55, 56],
       WriterDrain, ReaderRead 512], Inr None) \<and>
   client_connect env_read_raises = Inr True \<and>
   client_read_holding_registers env_read_raises 7 2 (PInt 1) =
     Inl (OtherException ''ModbusIOException'') \<and>
   get_inverter_model_from_device_rtu env_read_raises example_serial_port (PInt 19200)
       (PStr (ascii ''N'')) (PInt 1) (PInt 8) (PInt 1) =
     ([ClientConnect example_serial_port, ReadHoldingRegisters 7 2 (PInt 1)], Inr None)"
  by (simp add: get_inverter_model_from_device_tcp_def get_inverter_model_from_device_rtu_def
        run_defs example_env_def env_read_raises_def example_host_def example_port_def
        example_dongle_def example_inverter_def example_serial_port_def ascii_def
        encode_code_point_def)

subsection \<open>The request of the probes\<close>

lemma tcp_probe_write:
  "WriterWrite b \<in> set (fst (get_inverter_model_from_device_tcp env host port dongle inverter)) \<Longrightarrow>
   \<exists>db ib. py_encode dongle = Inr db \<and> py_encode inverter = Inr ib \<and>
     prepare_packet_for_read env db ib 7 2 3 = Inr b"
  unfolding get_inverter_model_from_device_tcp_def
  by (auto simp: run_defs split: sum.splits option.splits prod.splits if_splits)

lemma rtu_probe_read:
  "ReadHoldingRegisters a c s \<in>
     set (fst (get_inverter_model_from_device_rtu env sp baud par stop bsize slave)) \<Longrightarrow>
   a = 7 \<and> c = 2 \<and> s = slave"
  unfolding get_inverter_model_from_device_rtu_def
  by (auto simp: run_defs split: sum.splits option.splits prod.splits if_splits)

lemma registers_dict_pair: "registers_dict [a, b] = [(7, a), (8, b)]"
  by (simp add: registers_dict_def upt_rec numeral_eq_Suc)

lemma registers_dict_nth:
  assumes "i < length regs"
  shows "map_of (registers_dict regs) (7 + int i) = Some (regs ! i)"
proof -
  have d: "distinct (map fst (registers_dict regs))"
    by (simp add: registers_dict_def distinct_map comp_def inj_on_def)
  have m: "(7 + int i, regs ! i) \<in> set (registers_dict regs)"
    using assms by (auto simp: registers_dict_def)
  show ?thesis by (rule map_of_is_SomeI [OF d m])
qed

lemma tcp_probe_Some_request:
  assumes "snd (get_inverter_model_from_device_tcp env host port dongle inverter) = Inr (Some m)"
  shows "\<exists>req buf resp.
     WriterWrite req \<in> set (fst (get_inverter_model_from_device_tcp env host port dongle inverter)) \<and>
     reader_read env 512 = Inr buf \<and> LxpResponse env buf = Inr resp \<and>
     decode_model_from_registers env (parsed_values_dictionary resp) = Inr (Some m)"
proof -
  from tcp_probe_Some [OF assms] obtain db ib req buf resp where h:
    "open_connection env host port = None" "py_encode dongle = Inr db"
    "py_encode inverter = Inr ib" "prepare_packet_for_read env db ib 7 2 3 = Inr req"
    "writer_write env req = None" "writer_drain env = None" "reader_read env 512 = Inr buf"
    "LxpResponse env buf = Inr resp"
    "decode_model_from_registers env (parsed_values_dictionary resp) = Inr (Some m)"
    by blast
  from tcp_probe_trace_after_read [OF h(1-7)]
  have "WriterWrite req \<in> set (fst (get_inverter_model_from_device_tcp env host port dongle inverter))"
    by auto
  with h show ?thesis by blast
qed

lemma rtu_probe_Some_request:
  assumes "snd (get_inverter_model_from_device_rtu env sp baud par stop bsize slave) = Inr (Some m)"
  shows "\<exists>res.
     ReadHoldingRegisters 7 2 slave \<in>
       set (fst (get_inverter_model_from_device_rtu env sp baud par stop bsize slave)) \<and>
     client_read_holding_registers env 7 2 slave = Inr res \<and>
     decode_model_from_registers env (registers_dict (result_registers res)) = Inr (Some m)"
proof -
  from rtu_probe_Some [OF assms] obtain res where h:
    "import_ModbusSerialClient env = None" "ModbusSerialClient env sp baud par stop bsize 3 = None"
    "client_connect env = Inr True" "client_read_holding_registers env 7 2 slave = Inr res"
    "decode_model_from_registers env (registers_dict (result_registers res)) = Inr (Some m)"
    by blast
  from rtu_probe_trace_after_read [OF h(1-4)]
  have "ReadHoldingRegisters 7 2 slave \<in>
       set (fst (get_inverter_model_from_device_rtu env sp baud par stop bsize slave))"
    by simp
  with h show ?thesis by blast
qed

lemma tcp_probe_issues_request:
  "open_connection env host port = None \<Longrightarrow> py_encode dongle = Inr db \<Longrightarrow>
   py_encode inverter = Inr ib \<Longrightarrow> prepare_packet_for_read env db ib 7 2 3 = Inr req \<Longrightarrow>
   take 2 (fst (get_inverter_model_from_device_tcp env host port dongle inverter)) =
     [OpenConnection host port, WriterWrite req]"
  unfolding get_inverter_model_from_device_tcp_def
  by (auto simp: run_defs split: sum.splits option.splits prod.splits if_splits)

lemma rtu_probe_issues_request:
  "import_ModbusSerialClient env = None \<Longrightarrow>
   ModbusSerialClient env sp baud par stop bsize 3 = None \<Longrightarrow>
   client_connect env = Inr True \<Longrightarrow>
   take 2 (fst (get_inverter_model_from_device_rtu env sp baud par stop bsize slave)) =
     [ClientConnect sp, ReadHoldingRegisters 7 2 slave]"
  unfolding get_inverter_model_from_device_rtu_def
  by (auto simp: run_defs split: sum.splits option.splits prod.splits if_splits)

lemma tcp_probe_complete:
  "open_connection env host port = None \<Longrightarrow> py_encode dongle = Inr db \<Longrightarrow>
   py_encode inverter = Inr ib \<Longrightarrow> prepare_packet_for_read env db ib 7 2 3 = Inr req \<Longrightarrow>
   writer_write env req = None \<Longrightarrow> writer_drain env = None \<Longrightarrow>
   reader_read env 512 = Inr buf \<Longrightarrow> writer_close env = None \<Longrightarrow>
   writer_wait_closed env = None \<Longrightarrow> buf \<noteq> [] \<Longrightarrow> LxpResponse env buf = Inr resp \<Longrightarrow>
   \<not> packet_error resp \<Longrightarrow>
   get_inverter_model_from_device_tcp env host port dongle inverter =
     ([OpenConnection host port, WriterWrite req, WriterDrain, ReaderRead 512, WriterClose,
       WriterWaitClosed],
      Inr (case decode_model_from_registers env (parsed_values_dictionary resp) of
             Inl e \<Rightarrow> None | Inr model \<Rightarrow> model))"
  unfolding get_inverter_model_from_device_tcp_def
  by (auto simp: run_defs split: sum.splits option.splits prod.splits if_splits)

lemma rtu_probe_complete:
  "import_ModbusSerialClient env = None \<Longrightarrow>
   ModbusSerialClient env sp baud par stop bsize 3 = None \<Longrightarrow>
   client_connect env = Inr True \<Longrightarrow> client_read_holding_registers env 7 2 slave = Inr res \<Longrightarrow>
   client_close env = None \<Longrightarrow> \<not> isError res \<Longrightarrow>
   get_inverter_model_from_device_rtu env sp baud par stop bsize slave =
     ([ClientConnect sp, ReadHoldingRegisters 7 2 slave, ClientClose],
      Inr (case decode_model_from_registers env (registers_dict (result_registers res)) of
             Inl e \<Rightarrow> None | Inr model \<Rightarrow> model))"
  unfolding get_inverter_model_from_device_rtu_def
  by (auto simp: run_defs split: sum.splits option.splits prod.splits if_splits)

text \<open>
  Claim C6. Once the connection is open and the request is built, the TCP probe writes
  the packet that \<^verbatim>\<open>prepare_packet_for_read\<close> makes of the two encoded serials and the
  arguments 7, 2, 3 (start register 7, 2 registers, function code 3), and it writes no
  other packet; once connected, the RTU probe issues
  \<^verbatim>\<open>read_holding_registers(address=7, count=2)\<close> for the given slave, and no other read.
  When the exchange completes with a response that is not empty and carries no error, the
  probe returns what \<^verbatim>\<open>decode_model_from_registers\<close> returns on the register map of the
  answer (for RTU the map that sends 7, 8, ... to the registers read), and \<^verbatim>\<open>None\<close>
  when the decoder raises; so a code the decoder does not know gives \<^verbatim>\<open>None\<close>, not
  an exception. A model is never returned without that request and that decoding.
\<close>

theorem probe_reads_registers_7_and_8:
  "(open_connection env host port = None \<and> py_encode dongle = Inr db \<and>
    py_encode inverter = Inr ib \<and> prepare_packet_for_read env db ib 7 2 3 = Inr req \<longrightarrow>
      take 2 (fst (get_inverter_model_from_device_tcp env host port dongle inverter)) =
        [OpenConnection host port, WriterWrite req]) \<and>
   (import_ModbusSerialClient env = None \<and>
    ModbusSerialClient env sp baud par stop bsize 3 = None \<and> client_connect env = Inr True \<longrightarrow>
      take 2 (fst (get_inverter_model_from_device_rtu env sp baud par stop bsize slave)) =
        [ClientConnect sp, ReadHoldingRegisters 7 2 slave]) \<and>
   (\<forall>b. WriterWrite b \<in>
          set (fst (get_inverter_model_from_device_tcp env host port dongle inverter)) \<longrightarrow>
      (\<exists>db ib. py_encode dongle = Inr db \<and> py_encode inverter = Inr ib \<and>
         prepare_packet_for_read env db ib 7 2 3 = Inr b)) \<and>
   (\<forall>a c s. ReadHoldingRegisters a c s \<in>
          set (fst (get_inverter_model_from_device_rtu env sp baud par stop bsize slave)) \<longrightarrow>
      a = 7 \<and> c = 2 \<and> s = slave) \<and>
   (open_connection env host port = None \<and> py_encode dongle = Inr db \<and>
    py_encode inverter = Inr ib \<and> prepare_packet_for_read env db ib 7 2 3 = Inr req \<and>
    writer_write env req = None \<and> writer_drain env = None \<and> reader_read env 512 = Inr buf \<and>
    writer_close env = None \<and> writer_wait_closed env = None \<and> buf \<noteq> [] \<and>
    LxpResponse env buf = Inr resp \<and> \<not> packet_error resp \<longrightarrow>
      get_inverter_model_from_device_tcp env host port dongle inverter =
        ([OpenConnection host port, WriterWrite req, WriterDrain, ReaderRead 512, WriterClose,
          WriterWaitClosed],
         Inr (case decode_model_from_registers env (parsed_values_dictionary resp) of
                Inl e \<Rightarrow> None | Inr model \<Rightarrow> model))) \<and>
   (import_ModbusSerialClient env = None \<and>
    ModbusSerialClient env sp baud par stop bsize 3 = None \<and> client_connect env = Inr True \<and>
    client_read_holding_registers env 7 2 slave = Inr res \<and> client_close env = None \<and>
    \<not> isError res \<longrightarrow>
      get_inverter_model_from_device_rtu env sp baud par stop bsize slave =
        ([ClientConnect sp, ReadHoldingRegisters 7 2 slave, ClientClose],
         Inr (case decode_model_from_registers env (registers_dict (result_registers res)) of
                Inl e \<Rightarrow> None | Inr model \<Rightarrow> model))) \<and>
   (\<forall>m. snd (get_inverter_model_from_device_tcp env host port dongle inverter) = Inr (Some m) \<longrightarrow>
      (\<exists>req buf resp.
         WriterWrite req \<in>
           set (fst (get_inverter_model_from_device_tcp env host port dongle inverter)) \<and>
         reader_read env 512 = Inr buf \<and> LxpResponse env buf = Inr resp \<and>
         decode_model_from_registers env (parsed_values_dictionary resp) = Inr (Some m))) \<and>
   (\<forall>m. snd (get_inverter_model_from_device_rtu env sp baud par stop bsize slave) = Inr (Some m) \<longrightarrow>
      (\<exists>res.
         ReadHoldingRegisters 7 2 slave \<in>
           set (fst (get_inverter_model_from_device_rtu env sp baud par stop bsize slave)) \<and>
         client_read_holding_registers env 7 2 slave = Inr res \<and>
         decode_model_from_registers env (registers_dict (result_registers res)) = Inr (Some m))) \<and>
   (\<forall>regs i. i < length regs \<longrightarrow> map_of (registers_dict regs) (7 + int i) = Some (regs ! i)) \<and>
   (\<forall>a b. registers_dict [a, b] = [(7, a), (8, b)])"
proof -
  have c1: "(open_connection env host port = None \<and> py_encode dongle = Inr db \<and>
    py_encode inverter = Inr ib \<and> prepare_packet_for_read env db ib 7 2 3 = Inr req \<longrightarrow>
      take 2 (fst (get_inverter_model_from_device_tcp env host port dongle inverter)) =
        [OpenConnection host port, WriterWrite req])"
    using tcp_probe_issues_request [of env host port dongle db inverter ib req] by blast
  have c2: "(import_ModbusSerialClient env = None \<and>
    ModbusSerialClient env sp baud par stop bsize 3 = None \<and> client_connect env = Inr True \<longrightarrow>
      take 2 (fst (get_inverter_model_from_device_rtu env sp baud par stop bsize slave)) =
        [ClientConnect sp, ReadHoldingRegisters 7 2 slave])"
    using rtu_probe_issues_request [of env sp baud par stop bsize slave] by blast
  have c3: "(\<forall>b. WriterWrite b \<in>
          set (fst (get_inverter_model_from_device_tcp env host port dongle inverter)) \<longrightarrow>
      (\<exists>db ib. py_encode dongle = Inr db \<and> py_encode inverter = Inr ib \<and>
         prepare_packet_for_read env db ib 7 2 3 = Inr b))"
    using tcp_probe_write [of _ env host port dongle inverter] by blast
  have c4: "(\<forall>a c s. ReadHoldingRegisters a c s \<in>
          set (fst (get_inverter_model_from_device_rtu env sp baud par stop bsize slave)) \<longrightarrow>
      a = 7 \<and> c = 2 \<and> s = slave)"
    using rtu_probe_read [of _ _ _ env sp baud par stop bsize slave] by blast
  have c5: "(open_connection env host port = None \<and> py_encode dongle = Inr db \<and>
    py_encode inverter = Inr ib \<and> prepare_packet_for_read env db ib 7 2 3 = Inr req \<and>
    writer_write env req = None \<and> writer_drain env = None \<and> reader_read env 512 = Inr buf \<and>
    writer_close env = None \<and> writer_wait_closed env = None \<and> buf \<noteq> [] \<and>
    LxpResponse env buf = Inr resp \<and> \<not> packet_error resp \<longrightarrow>
      get_inverter_model_from_device_tcp env host port dongle inverter =
        ([OpenConnection host port, WriterWrite req, WriterDrain, ReaderRead 512, WriterClose,
          WriterWaitClosed],
         Inr (case decode_model_from_registers env (parsed_values_dictionary resp) of
                Inl e \<Rightarrow> None | Inr model \<Rightarrow> model)))"
    using tcp_probe_complete [of env host port dongle db inverter ib req buf resp] by blast
  have c6: "(import_ModbusSerialClient env = None \<and>
    ModbusSerialClient env sp baud par stop bsize 3 = None \<and> client_connect env = Inr True \<and>
    client_read_holding_registers env 7 2 slave = Inr res \<and> client_close env = None \<and>
    \<not> isError res \<longrightarrow>
      get_inverter_model_from_device_rtu env sp baud par stop bsize slave =
        ([ClientConnect sp, ReadHoldingRegisters 7 2 slave, ClientClose],
         Inr (case decode_model_from_registers env (registers_dict (result_registers res)) of
                Inl e \<Rightarrow> None | Inr model \<Rightarrow> model)))"
    using rtu_probe_complete [of env sp baud par stop bsize slave res] by blast
  have c7: "(\<forall>m. snd (get_inverter_model_from_device_tcp env host port dongle inverter) = Inr (Some m) \<longrightarrow>
      (\<exists>req buf resp.
         WriterWrite req \<in>
           set (fst (get_inverter_model_from_device_tcp env host port dongle inverter)) \<and>
         reader_read env 512 = Inr buf \<and> LxpResponse env buf = Inr resp \<and>
         decode_model_from_registers env (parsed_values_dictionary resp) = Inr (Some m)))"
    using tcp_probe_Some_request [of env host port dongle inverter] by blast
  have c8: "(\<forall>m. snd (get_inverter_model_from_device_rtu env sp baud par stop bsize slave) = Inr (Some m) \<longrightarrow>
      (\<exists>res.
         ReadHoldingRegisters 7 2 slave \<in>
           set (fst (get_inverter_model_from_device_rtu env sp baud par stop bsize slave)) \<and>
         client_read_holding_registers env 7 2 slave = Inr res \<and>
         decode_model_from_registers env (registers_dict (result_registers res)) = Inr (Some m)))"
    using rtu_probe_Some_request [of env sp baud par stop bsize slave] by blast
  have c9: "(\<forall>regs i. i < length regs \<longrightarrow> map_of (registers_dict regs) (7 + int i) = Some (regs ! i))"
    using registers_dict_nth by blast
  have c10: "(\<forall>a b. registers_dict [a, b] = [(7, a), (8, b)])"
    using registers_dict_pair by blast
  show ?thesis by (intro conjI) (fact c1 c2 c3 c4 c5 c6 c7 c8 c9 c10)+
qed

theorem probe_reads_registers_7_and_8_witness:
  "get_inverter_model_from_device_tcp env_decoding example_host example_port example_dongle example_inverter =
      ([OpenConnection example_host example_port,
        WriterWrite [66, 65, 49, 50, 51, 52, 53, 54, 55, 56, 67, 68, 49, 50, 51, 52, 53, 54, 55, 56],
        WriterDrain, ReaderRead 512, WriterClose, WriterWaitClosed],
       Inr (Some (ascii ''AAAA''))) \<and>
   get_inverter_model_from_device_rtu env_decoding example_serial_port (PInt 19200) (PStr (ascii ''N'')) (PInt 1) (PInt 8) (PInt 1) =
      ([ClientConnect example_serial_port, ReadHoldingRegisters 7 2 (PInt 1), ClientClose],
       Inr (Some (ascii ''AAAA''))) \<and>
   get_inverter_model_from_device_tcp env_unknown_code example_host example_port example_dongle example_inverter =
      ([OpenConnection example_host example_port,
        WriterWrite [66, 65, 49, 50, 51, 52, 53, 54, 55, 56, 67, 68, 49, 50, 51, 52, 53, 54, 55, 56],
        WriterDrain, ReaderRead 512, WriterClose, WriterWaitClosed],
       Inr (None)) \<and>
   get_inverter_model_from_device_rtu env_unknown_code example_serial_port (PInt 19200) (PStr (ascii ''N'')) (PInt 1) (PInt 8) (PInt 1) =
      ([ClientConnect example_serial_port, ReadHoldingRegisters 7 2 (PInt 1), ClientClose],
       Inr (None)) \<and>
   get_inverter_model_from_device_tcp env_decoder_raises example_host example_port example_dongle example_inverter =
      ([OpenConnection example_host example_port,
        WriterWrite [66, 65, 49, 50, 51, 52, 53, 54, 55, 56, 67, 68, 49, 50, 51, 52, 53, 54, 55, 56],
        WriterDrain, ReaderRead 512, WriterClose, WriterWaitClosed],
       Inr (None)) \<and>
   get_inverter_model_from_device_rtu env_decoder_raises example_serial_port (PInt 19200) (PStr (ascii ''N'')) (PInt 1) (PInt 8) (PInt 1) =
      ([ClientConnect example_serial_port, ReadHoldingRegisters 7 2 (PInt 1), ClientClose],
       Inr (None))"
proof -
  have d: "py_encode example_dongle = Inr [66, 65, 49, 50, 51, 52, 53, 54, 55, 56]"
    by (simp add: example_dongle_def ascii_def encode_code_point_def)
  have i: "py_encode example_inverter = Inr [67, 68, 49, 50, 51, 52, 53, 54, 55, 56]"
    by (simp add: example_inverter_def ascii_def encode_code_point_def)
  note T0 = probe_reads_registers_7_and_8 [where env = env_decoding and host = example_host and port = example_port
      and dongle = example_dongle and inverter = example_inverter and db = "[66, 65, 49, 50, 51, 52, 53, 54, 55, 56]"
      and ib = "[67, 68, 49, 50, 51, 52, 53, 54, 55, 56]"
      and req = "[66, 65, 49, 50, 51, 52, 53, 54, 55, 56, 67, 68, 49, 50, 51, 52, 53, 54, 55, 56]"
      and buf = "[1]" and resp = "\<lparr>packet_error = False, parsed_values_dictionary = [(7, 1), (8, 2)]\<rparr>"
      and sp = example_serial_port and baud = "PInt 19200" and par = "PStr (ascii ''N'')"
      and stop = "PInt 1" and bsize = "PInt 8" and slave = "PInt 1"
      and res = "\<lparr>isError = False, result_registers = [1, 2]\<rparr>"]
  have ht0: "open_connection env_decoding example_host example_port = None \<and>
      py_encode example_dongle = Inr [66, 65, 49, 50, 51, 52, 53, 54, 55, 56] \<and>
      py_encode example_inverter = Inr [67, 68, 49, 50, 51, 52, 53, 54, 55, 56] \<and>
      prepare_packet_for_read env_decoding [66, 65, 49, 50, 51, 52, 53, 54, 55, 56]
        [67, 68, 49, 50, 51, 52, 53, 54, 55, 56] 7 2 3 =
        Inr [66, 65, 49, 50, 51, 52, 53, 54, 55, 56, 67, 68, 49, 50, 51, 52, 53, 54, 55, 56] \<and>
      writer_write env_decoding [66, 65, 49, 50, 51, 52, 53, 54, 55, 56, 67, 68, 49, 50, 51, 52, 53, 54, 55, 56] = None \<and>
      writer_drain env_decoding = None \<and> reader_read env_decoding 512 = Inr [1] \<and>
      writer_close env_decoding = None \<and> writer_wait_closed env_decoding = None \<and> [1::byte] \<noteq> [] \<and>
      LxpResponse env_decoding [1] = Inr \<lparr>packet_error = False, parsed_values_dictionary = [(7, 1), (8, 2)]\<rparr> \<and>
      \<not> packet_error \<lparr>packet_error = False, parsed_values_dictionary = [(7, 1), (8, 2)]\<rparr>"
    using d i by (simp add: env_decoding_def env_unknown_code_def env_decoder_raises_def example_env_def)
  have hr0: "import_ModbusSerialClient env_decoding = None \<and>
      ModbusSerialClient env_decoding example_serial_port (PInt 19200) (PStr (ascii ''N'')) (PInt 1)
        (PInt 8) 3 = None \<and>
      client_connect env_decoding = Inr True \<and>
      client_read_holding_registers env_decoding 7 2 (PInt 1) = Inr \<lparr>isError = False, result_registers = [1, 2]\<rparr> \<and>
      client_close env_decoding = None \<and> \<not> isError \<lparr>isError = False, result_registers = [1, 2]\<rparr>"
    by (simp add: env_decoding_def env_unknown_code_def env_decoder_raises_def example_env_def)
  have t0: "get_inverter_model_from_device_tcp env_decoding example_host example_port example_dongle example_inverter =
      ([OpenConnection example_host example_port,
        WriterWrite [66, 65, 49, 50, 51, 52, 53, 54, 55, 56, 67, 68, 49, 50, 51, 52, 53, 54, 55, 56],
        WriterDrain, ReaderRead 512, WriterClose, WriterWaitClosed],
       Inr (Some (ascii ''AAAA'')))"
    using T0 [THEN conjunct2, THEN conjunct2, THEN conjunct2, THEN conjunct2, THEN conjunct1, THEN mp, OF ht0]
    by (simp add: env_decoding_def env_unknown_code_def env_decoder_raises_def example_env_def)
  have r0: "get_inverter_model_from_device_rtu env_decoding example_serial_port (PInt 19200) (PStr (ascii ''N'')) (PInt 1) (PInt 8) (PInt 1) =
      ([ClientConnect example_serial_port, ReadHoldingRegisters 7 2 (PInt 1), ClientClose],
       Inr (Some (ascii ''AAAA'')))"
    using T0 [THEN conjunct2, THEN conjunct2, THEN conjunct2, THEN conjunct2, THEN conjunct2, THEN conjunct1, THEN mp, OF hr0]
    by (simp add: env_decoding_def env_unknown_code_def env_decoder_raises_def example_env_def
          registers_dict_pair)
  note T1 = probe_reads_registers_7_and_8 [where env = env_unknown_code and host = example_host and port = example_port
      and dongle = example_dongle and inverter = example_inverter and db = "[66, 65, 49, 50, 51, 52, 53, 54, 55, 56]"
      and ib = "[67, 68, 49, 50, 51, 52, 53, 54, 55, 56]"
      and req = "[66, 65, 49, 50, 51, 52, 53, 54, 55, 56, 67, 68, 49, 50, 51, 52, 53, 54, 55, 56]"
      and buf = "[1]" and resp = "\<lparr>packet_error = False, parsed_values_dictionary = [(7, 9), (8, 9)]\<rparr>"
      and sp = example_serial_port and baud = "PInt 19200" and par = "PStr (ascii ''N'')"
      and stop = "PInt 1" and bsize = "PInt 8" and slave = "PInt 1"
      and res = "\<lparr>isError = False, result_registers = [9, 9]\<rparr>"]
  have ht1: "open_connection env_unknown_code example_host example_port = None \<and>
      py_encode example_dongle = Inr [66, 65, 49, 50, 51, 52, 53, 54, 55, 56] \<and>
      py_encode example_inverter = Inr [67, 68, 49, 50, 51, 52, 53, 54, 55, 56] \<and>
      prepare_packet_for_read env_unknown_code [66, 65, 49, 50, 51, 52, 53, 54, 55, 56]
        [67, 68, 49, 50, 51, 52, 53, 54, 55, 56] 7 2 3 =
        Inr [66, 65, 49, 50, 51, 52, 53, 54, 55, 56, 67, 68, 49, 50, 51, 52, 53, 54, 55, 56] \<and>
      writer_write env_unknown_code [66, 65, 49, 50, 51, 52, 53, 54, 55, 56, 67, 68, 49, 50, 51, 52, 53, 54, 55, 56] = None \<and>
      writer_drain env_unknown_code = None \<and> reader_read env_unknown_code 512 = Inr [1] \<and>
      writer_close env_unknown_code = None \<and> writer_wait_closed env_unknown_code = None \<and> [1::byte] \<noteq> [] \<and>
      LxpResponse env_unknown_code [1] = Inr \<lparr>packet_error = False, parsed_values_dictionary = [(7, 9), (8, 9)]\<rparr> \<and>
      \<not> packet_error \<lparr>packet_error = False, parsed_values_dictionary = [(7, 9), (8, 9)]\<rparr>"
    using d i by (simp add: env_decoding_def env_unknown_code_def env_decoder_raises_def example_env_def)
  have hr1: "import_ModbusSerialClient env_unknown_code = None \<and>
      ModbusSerialClient env_unknown_code example_serial_port (PInt 19200) (PStr (ascii ''N'')) (PInt 1)
        (PInt 8) 3 = None \<and>
      client_connect env_unknown_code = Inr True \<and>
      client_read_holding_registers env_unknown_code 7 2 (PInt 1) = Inr \<lparr>isError = False, result_registers = [9, 9]\<rparr> \<and>
      client_close env_unknown_code = None \<and> \<not> isError \<lparr>isError = False, result_registers = [9, 9]\<rparr>"
    by (simp add: env_decoding_def env_unknown_code_def env_decoder_raises_def example_env_def)
  have t1: "get_inverter_model_from_device_tcp env_unknown_code example_host example_port example_dongle example_inverter =
      ([OpenConnection example_host example_port,
        WriterWrite [66, 65, 49, 50, 51, 52, 53, 54, 55, 56, 67, 68, 49, 50, 51, 52, 53, 54, 55, 56],
        WriterDrain, ReaderRead 512, WriterClose, WriterWaitClosed],
       Inr (None))"
    using T1 [THEN conjunct2, THEN conjunct2, THEN conjunct2, THEN conjunct2, THEN conjunct1, THEN mp, OF ht1]
    by (simp add: env_decoding_def env_unknown_code_def env_decoder_raises_def example_env_def)
  have r1: "get_inverter_model_from_device_rtu env_unknown_code example_serial_port (PInt 19200) (PStr (ascii ''N'')) (PInt 1) (PInt 8) (PInt 1) =
      ([ClientConnect example_serial_port, ReadHoldingRegisters 7 2 (PInt 1), ClientClose],
       Inr (None))"
    using T1 [THEN conjunct2, THEN conjunct2, THEN conjunct2, THEN conjunct2, THEN conjunct2, THEN conjunct1, THEN mp, OF hr1]
    by (simp add: env_decoding_def env_unknown_code_def env_decoder_raises_def example_env_def
          registers_dict_pair)
  note T2 = probe_reads_registers_7_and_8 [where env = env_decoder_raises and host = example_host and port = example_port
      and dongle = example_dongle and inverter = example_inverter and db = "[66, 65, 49, 50, 51, 52, 53, 54, 55, 56]"
      and ib = "[67, 68, 49, 50, 51, 52, 53, 54, 55, 56]"
      and req = "[66, 65, 49, 50, 51, 52, 53, 54, 55, 56, 67, 68, 49, 50, 51, 52, 53, 54, 55, 56]"
      and buf = "[1]" and resp = "\<lparr>packet_error = False, parsed_values_dictionary = [(7, 1), (8, 2)]\<rparr>"
      and sp = example_serial_port and baud = "PInt 19200" and par = "PStr (ascii ''N'')"
      and stop = "PInt 1" and bsize = "PInt 8" and slave = "PInt 1"
      and res = "\<lparr>isError = False, result_registers = [1, 2]\<rparr>"]
  have ht2: "open_connection env_decoder_raises example_host example_port = None \<and>
      py_encode example_dongle = Inr [66, 65, 49, 50, 51, 52, 53, 54, 55, 56] \<and>
      py_encode example_inverter = Inr [67, 68, 49, 50, 51, 52, 53, 54, 55, 56] \<and>
      prepare_packet_for_read env_decoder_raises [66, 65, 49, 50, 51, 52, 53, 54, 55, 56]
        [67, 68, 49, 50, 51, 52, 53, 54, 55, 56] 7 2 3 =
        Inr [66, 65, 49, 50, 51, 52, 53, 54, 55, 56, 67, 68, 49, 50, 51, 52, 53, 54, 55, 56] \<and>
      writer_write env_decoder_raises [66, 65, 49, 50, 51, 52, 53, 54, 55, 56, 67, 68, 49, 50, 51, 52, 53, 54, 55, 56] = None \<and>
      writer_drain env_decoder_raises = None \<and> reader_read env_decoder_raises 512 = Inr [1] \<and>
      writer_close env_decoder_raises = None \<and> writer_wait_closed env_decoder_raises = None \<and> [1::byte] \<noteq> [] \<and>
      LxpResponse env_decoder_raises [1] = Inr \<lparr>packet_error = False, parsed_values_dictionary = [(7, 1), (8, 2)]\<rparr> \<and>
      \<not> packet_error \<lparr>packet_error = False, parsed_values_dictionary = [(7, 1), (8, 2)]\<rparr>"
    using d i by (simp add: env_decoding_def env_unknown_code_def env_decoder_raises_def example_env_def)
  have hr2: "import_ModbusSerialClient env_decoder_raises = None \<and>
      ModbusSerialClient env_decoder_raises example_serial_port (PInt 19200) (PStr (ascii ''N'')) (PInt 1)
        (PInt 8) 3 = None \<and>
      client_connect env_decoder_raises = Inr True \<and>
      client_read_holding_registers env_decoder_raises 7 2 (PInt 1) = Inr \<lparr>isError = False, result_registers = [1, 2]\<rparr> \<and>
      client_close env_decoder_raises = None \<and> \<not> isError \<lparr>isError = False, result_registers = [1, 2]\<rparr>"
    by (simp add: env_decoding_def env_unknown_code_def env_decoder_raises_def example_env_def)
  have t2: "get_inverter_model_from_device_tcp env_decoder_raises example_host example_port example_dongle example_inverter =
      ([OpenConnection example_host example_port,
        WriterWrite [66, 65, 49, 50, 51, 52, 53, 54, 55, 56, 67, 68, 49, 50, 51, 52, 53, 54, 55, 56],
        WriterDrain, ReaderRead 512, WriterClose, WriterWaitClosed],
       Inr (None))"
    using T2 [THEN conjunct2, THEN conjunct2, THEN conjunct2, THEN conjunct2, THEN conjunct1, THEN mp, OF ht2]
    by (simp add: env_decoding_def env_unknown_code_def env_decoder_raises_def example_env_def)
  have r2: "get_inverter_model_from_device_rtu env_decoder_raises example_serial_port (PInt 19200) (PStr (ascii ''N'')) (PInt 1) (PInt 8) (PInt 1) =
      ([ClientConnect example_serial_port, ReadHoldingRegisters 7 2 (PInt 1), ClientClose],
       Inr (None))"
    using T2 [THEN conjunct2, THEN conjunct2, THEN conjunct2, THEN conjunct2, THEN conjunct2, THEN conjunct1, THEN mp, OF hr2]
    by (simp add: env_decoding_def env_unknown_code_def env_decoder_raises_def example_env_def
          registers_dict_pair)
  show ?thesis by (intro conjI) (fact t0 r0 t1 r1 t2 r2)+
qed

section \<open>Properties of the form schemas\<close>

lemmas schema_defs =
  schema_accepts_def schema_validator_def schema_default_def
  tcp_data_schema_def rtu_data_schema_def conf_keys const_values

lemma accepts_int_range:
  "accepts (VAll [VType TInt, VRange lo hi]) v =
     (case int_value v of None \<Rightarrow> False | Some i \<Rightarrow> lo \<le> i \<and> i \<le> hi)"
  by (cases v) auto

text \<open>
  Claim C8. The setup form for TCP accepts as poll interval exactly the integers from 2
  to 600, the setup form for RTU exactly the integers from 1 (\<^verbatim>\<open>RTU_MIN_POLL_INTERVAL\<close>)
  to 600; a value that is not an \<^verbatim>\<open>int\<close> is refused.
\<close>

theorem poll_interval_range:
  "schema_accepts tcp_data_schema CONF_POLL_INTERVAL v =
     (case int_value v of None \<Rightarrow> False | Some n \<Rightarrow> 2 \<le> n \<and> n \<le> 600) \<and>
   schema_accepts (rtu_data_schema serial_ports) CONF_POLL_INTERVAL v =
     (case int_value v of None \<Rightarrow> False | Some n \<Rightarrow> 1 \<le> n \<and> n \<le> 600) \<and>
   schema_accepts tcp_data_schema CONF_POLL_INTERVAL (PInt n) = (2 \<le> n \<and> n \<le> 600) \<and>
   schema_accepts (rtu_data_schema serial_ports) CONF_POLL_INTERVAL (PInt n) =
     (1 \<le> n \<and> n \<le> 600) \<and>
   RTU_MIN_POLL_INTERVAL = 1"
proof -
  have t: "schema_validator tcp_data_schema CONF_POLL_INTERVAL =
      Some (VAll [VType TInt, VRange 2 600])"
    by (simp add: schema_defs)
  have r: "schema_validator (rtu_data_schema serial_ports) CONF_POLL_INTERVAL =
      Some (VAll [VType TInt, VRange 1 600])"
    by (simp add: schema_defs)
  show ?thesis
    by (simp add: schema_accepts_def t r accepts_int_range RTU_MIN_POLL_INTERVAL_def
          del: accepts.simps)
qed

text \<open>
  Claim C9. The defaults and the allowed values of the forms: port 8000; baud rate 19200
  out of 9600, 19200, 38400, 57600, 115200; parity N out of N, E, O; stop bits 1 out of
  1, 2; byte size 8 out of 7, 8; slave id 1 within 1..247; register block size 125 with
  40 as the only other choice; connection retries 3; rated power within 1000..100000.
\<close>

theorem configuration_defaults_and_choices:
  "schema_default tcp_data_schema CONF_PORT = Some (PInt 8000) \<and>
   schema_default (rtu_data_schema sp) CONF_BAUDRATE = Some (PInt 19200) \<and>
   schema_accepts (rtu_data_schema sp) CONF_BAUDRATE (PInt n) =
     (n \<in> {9600, 19200, 38400, 57600, 115200}) \<and>
   schema_default (rtu_data_schema sp) CONF_PARITY = Some (PStr (ascii ''N'')) \<and>
   schema_accepts (rtu_data_schema sp) CONF_PARITY (PStr x) =
     (x \<in> {ascii ''N'', ascii ''E'', ascii ''O''}) \<and>
   schema_default (rtu_data_schema sp) CONF_STOPBITS = Some (PInt 1) \<and>
   schema_accepts (rtu_data_schema sp) CONF_STOPBITS (PInt n) = (n \<in> {1, 2}) \<and>
   schema_default (rtu_data_schema sp) CONF_BYTESIZE = Some (PInt 8) \<and>
   schema_accepts (rtu_data_schema sp) CONF_BYTESIZE (PInt n) = (n \<in> {7, 8}) \<and>
   schema_default (rtu_data_schema sp) CONF_SLAVE_ID = Some (PInt 1) \<and>
   schema_accepts (rtu_data_schema sp) CONF_SLAVE_ID (PInt n) = (1 \<le> n \<and> n \<le> 247) \<and>
   schema_default tcp_data_schema CONF_REGISTER_BLOCK_SIZE = Some (PInt 125) \<and>
   schema_default (rtu_data_schema sp) CONF_REGISTER_BLOCK_SIZE = Some (PInt 125) \<and>
   schema_accepts tcp_data_schema CONF_REGISTER_BLOCK_SIZE (PInt n) = (n \<in> {125, 40}) \<and>
   schema_accepts (rtu_data_schema sp) CONF_REGISTER_BLOCK_SIZE (PInt n) = (n \<in> {125, 40}) \<and>
   schema_default tcp_data_schema CONF_CONNECTION_RETRIES = Some (PInt 3) \<and>
   schema_default (rtu_data_schema sp) CONF_CONNECTION_RETRIES = Some (PInt 3) \<and>
   schema_accepts tcp_data_schema CONF_RATED_POWER (PInt n) = (1000 \<le> n \<and> n \<le> 100000) \<and>
   schema_accepts (rtu_data_schema sp) CONF_RATED_POWER (PInt n) =
     (1000 \<le> n \<and> n \<le> 100000) \<and>
   BAUDRATE_OPTIONS = [9600, 19200, 38400, 57600, 115200] \<and>
   PARITY_OPTIONS = [ascii ''N'', ascii ''E'', ascii ''O''] \<and>
   STOPBITS_OPTIONS = [1, 2] \<and> BYTESIZE_OPTIONS = [7, 8] \<and>
   DEFAULT_PORT = 8000 \<and> DEFAULT_BAUDRATE = 19200 \<and> DEFAULT_PARITY = ascii ''N'' \<and>
   DEFAULT_STOPBITS = 1 \<and> DEFAULT_BYTESIZE = 8 \<and> DEFAULT_SLAVE_ID = 1 \<and>
   DEFAULT_REGISTER_BLOCK_SIZE = 125 \<and> LEGACY_REGISTER_BLOCK_SIZE = 40 \<and>
   DEFAULT_CONNECTION_RETRIES = 3"
  by (intro conjI) (simp_all add: schema_defs)

section \<open>Properties of the setup flow\<close>

lemmas io_defs =
  io_return_def io_pure_def io_get_def io_bind_def io_try_def io_call_def await_def
  enter_step_def set_error_def ui_dict_def ui_subscript_def ui_get_def ui_set_def
  assign_model_def read_model_def async_update_entry_def

lemma check_serial_run:
  "var_user_input s = Some ui \<Longrightarrow> map_of ui key = Some v \<Longrightarrow>
   check_serial key s =
     (Inr (), if length (py_str v) = 10 then s
              else s\<lparr>var_errors := AList.update key ''invalid_serial'' (var_errors s)\<rparr>)"
  by (simp add: check_serial_def io_defs subscript_def validate_serial_def Let_def)

lemma check_serial_missing:
  "var_user_input s = Some ui \<Longrightarrow> map_of ui key = None \<Longrightarrow>
   check_serial key s = (Inl (KeyError key), s)"
  by (simp add: check_serial_def io_defs subscript_def validate_serial_def Let_def)

lemma check_connection_retries_run:
  "var_user_input s = Some ui \<Longrightarrow>
   check_connection_retries env s =
     (case validate_connection_retries (int_of_str env)
             (dict_get ui CONF_CONNECTION_RETRIES (PInt DEFAULT_CONNECTION_RETRIES)) of
        Inr n \<Rightarrow> (Inr (), s)
      | Inl e \<Rightarrow>
          if is_Invalid e
          then (Inr (), s\<lparr>var_errors := AList.update CONF_CONNECTION_RETRIES
                                          ''invalid_connection_retries'' (var_errors s)\<rparr>)
          else (Inl e, s))"
  by (simp add: check_connection_retries_def io_defs split: sum.splits)

lemma update_nonempty [simp]: "AList.update k v al \<noteq> []"
  by (cases al) auto


lemma tcp_submit_bad_serial:
  assumes "var_user_input s = Some ui" "var_errors s = []"
    "map_of ui CONF_DONGLE_SERIAL = Some d" "map_of ui CONF_INVERTER_SERIAL = Some i"
    "length (py_str d) \<noteq> 10 \<or> length (py_str i) \<noteq> 10"
  shows "\<exists>errs.
     (length (py_str d) \<noteq> 10 \<longrightarrow> map_of errs CONF_DONGLE_SERIAL = Some ''invalid_serial'') \<and>
     (length (py_str i) \<noteq> 10 \<longrightarrow> map_of errs CONF_INVERTER_SERIAL = Some ''invalid_serial'') \<and>
     (tcp_submit env s = (Inr None, s\<lparr>var_errors := errs\<rparr>) \<or>
      (\<exists>e. py_int (int_of_str env)
              (dict_get ui CONF_CONNECTION_RETRIES (PInt DEFAULT_CONNECTION_RETRIES)) = Inl e \<and>
           \<not> is_Invalid e \<and> tcp_submit env s = (Inl e, s\<lparr>var_errors := errs\<rparr>)))"
proof -
  define s1 where "s1 = (if length (py_str d) = 10 then s
              else s\<lparr>var_errors := AList.update CONF_DONGLE_SERIAL ''invalid_serial'' (var_errors s)\<rparr>)"
  define s2 where "s2 = (if length (py_str i) = 10 then s1
              else s1\<lparr>var_errors := AList.update CONF_INVERTER_SERIAL ''invalid_serial'' (var_errors s1)\<rparr>)"
  have u1: "var_user_input s1 = Some ui" and u2: "var_user_input s2 = Some ui"
    using assms(1) by (simp_all add: s1_def s2_def)
  have c1: "check_serial CONF_DONGLE_SERIAL s = (Inr (), s1)"
    unfolding s1_def by (rule check_serial_run [OF assms(1) assms(3)])
  have c2: "check_serial CONF_INVERTER_SERIAL s1 = (Inr (), s2)"
    unfolding s2_def by (rule check_serial_run [OF u1 assms(4)])
  have c3: "check_connection_retries env s2 = 
     (case validate_connection_retries (int_of_str env)
             (dict_get ui CONF_CONNECTION_RETRIES (PInt DEFAULT_CONNECTION_RETRIES)) of
        Inr n \<Rightarrow> (Inr (), s2)
      | Inl e \<Rightarrow>
          if is_Invalid e
          then (Inr (), s2\<lparr>var_errors := AList.update CONF_CONNECTION_RETRIES
                                          ''invalid_connection_retries'' (var_errors s2)\<rparr>)
          else (Inl e, s2))"
    by (rule check_connection_retries_run [OF u2])
  have ne: "var_errors s2 \<noteq> []"
    using assms(5) by (auto simp: s1_def s2_def)
  have e2: "s2 = s\<lparr>var_errors := var_errors s2\<rparr>"
    by (simp add: s1_def s2_def)
  have m1: "length (py_str d) \<noteq> 10 \<Longrightarrow> map_of (var_errors s2) CONF_DONGLE_SERIAL = Some ''invalid_serial''"
    by (simp add: s1_def s2_def update_conv' conf_keys)
  have m2: "length (py_str i) \<noteq> 10 \<Longrightarrow> map_of (var_errors s2) CONF_INVERTER_SERIAL = Some ''invalid_serial''"
    by (simp add: s1_def s2_def update_conv' conf_keys)
  let ?v = "validate_connection_retries (int_of_str env)
             (dict_get ui CONF_CONNECTION_RETRIES (PInt DEFAULT_CONNECTION_RETRIES))"
  let ?errs3 = "AList.update CONF_CONNECTION_RETRIES ''invalid_connection_retries'' (var_errors s2)"
  consider (ok) n where "?v = Inr n" | (inv) e where "?v = Inl e" "is_Invalid e"
    | (exn) e where "?v = Inl e" "\<not> is_Invalid e"
    by (cases ?v) auto
  then show ?thesis
  proof cases
    case ok
    then have "tcp_submit env s = (Inr None, s2)"
      using ne by (simp add: tcp_submit_def io_bind_def c1 c2 c3 io_get_def io_return_def)
    then have "tcp_submit env s = (Inr None, s\<lparr>var_errors := var_errors s2\<rparr>)"
      using e2 by simp
    with m1 m2 show ?thesis by blast
  next
    case inv
    then have "tcp_submit env s = (Inr None, s2\<lparr>var_errors := ?errs3\<rparr>)"
      by (simp add: tcp_submit_def io_bind_def c1 c2 c3 io_get_def io_return_def)
    then have "tcp_submit env s = (Inr None, s\<lparr>var_errors := ?errs3\<rparr>)"
      by (simp add: s1_def s2_def)
    moreover have "length (py_str d) \<noteq> 10 \<Longrightarrow> map_of ?errs3 CONF_DONGLE_SERIAL = Some ''invalid_serial''"
      using m1 by (simp add: update_conv' conf_keys)
    moreover have "length (py_str i) \<noteq> 10 \<Longrightarrow> map_of ?errs3 CONF_INVERTER_SERIAL = Some ''invalid_serial''"
      using m2 by (simp add: update_conv' conf_keys)
    ultimately show ?thesis by blast
  next
    case exn
    then have "tcp_submit env s = (Inl e, s2)"
      by (simp add: tcp_submit_def io_bind_def c1 c2 c3 io_get_def io_return_def)
    then have t: "tcp_submit env s = (Inl e, s\<lparr>var_errors := var_errors s2\<rparr>)"
      using e2 by simp
    from exn have "py_int (int_of_str env)
              (dict_get ui CONF_CONNECTION_RETRIES (PInt DEFAULT_CONNECTION_RETRIES)) = Inl e"
      by (auto simp: validate_connection_retries_def split: sum.splits if_splits)
    with t exn m1 m2 show ?thesis by blast
  qed
qed



lemma truthy_model: "py_truthy (model_value x) = (\<exists>m. x = Some m \<and> m \<noteq> [])"
  by (cases x) auto



lemmas flow_defs = tcp_submit_def async_step_tcp_def rtu_submit_def async_step_rtu_def
  check_serial_def check_connection_retries_def io_defs subscript_def dict_get_def
  validate_serial_def validate_connection_retries_def py_or_def


text \<open>
  Claim C1. A submission of the TCP form whose dongle serial or inverter serial does not
  render to exactly 10 characters makes no call to a device (the probe is not invoked) and
  creates no entry. Whenever the submitted retry count is an \<^verbatim>\<open>int\<close>, as the form's
  schema requires, or is left out, the step shows the form again with
  \<^verbatim>\<open>invalid_serial\<close> under the key of each offending serial; the one other outcome is
  that \<^verbatim>\<open>int()\<close> raises on the retry count, and then the step raises that exception.
\<close>

theorem tcp_step_rejects_bad_serial:
  assumes "map_of ui CONF_DONGLE_SERIAL = Some d" "map_of ui CONF_INVERTER_SERIAL = Some i"
    "length (py_str d) \<noteq> 10 \<or> length (py_str i) \<noteq> 10"
  shows "\<exists>errs.
     (length (py_str d) \<noteq> 10 \<longrightarrow> map_of errs CONF_DONGLE_SERIAL = Some ''invalid_serial'') \<and>
     (length (py_str i) \<noteq> 10 \<longrightarrow> map_of errs CONF_INVERTER_SERIAL = Some ''invalid_serial'') \<and>
     (fst (async_step_tcp env (Some ui) s) = Inr (ShowForm ''tcp'' tcp_data_schema ui errs) \<or>
      (\<exists>e. py_int (int_of_str env)
              (dict_get ui CONF_CONNECTION_RETRIES (PInt DEFAULT_CONNECTION_RETRIES)) = Inl e \<and>
           \<not> is_Invalid e \<and> fst (async_step_tcp env (Some ui) s) = Inl e)) \<and>
     (int_value (dict_get ui CONF_CONNECTION_RETRIES (PInt DEFAULT_CONNECTION_RETRIES)) \<noteq> None \<longrightarrow>
        fst (async_step_tcp env (Some ui) s) = Inr (ShowForm ''tcp'' tcp_data_schema ui errs)) \<and>
     trace (snd (async_step_tcp env (Some ui) s)) = trace s \<and>
     (\<forall>title dat. fst (async_step_tcp env (Some ui) s) \<noteq> Inr (CreateEntry title dat))"
proof -
  have conv: "\<And>v e. int_value v \<noteq> None \<Longrightarrow> py_int (int_of_str env) v \<noteq> Inl e"
  proof -
    fix v e show "int_value v \<noteq> None \<Longrightarrow> py_int (int_of_str env) v \<noteq> Inl e"
      by (cases v) auto
  qed
  define s0 where "s0 = s\<lparr>var_errors := [], var_user_input := Some ui, var_model := None\<rparr>"
  have s0: "var_user_input s0 = Some ui" "var_errors s0 = []" "trace s0 = trace s"
    by (simp_all add: s0_def)
  from tcp_submit_bad_serial [OF s0(1,2) assms, of env] obtain errs where
    d: "length (py_str d) \<noteq> 10 \<longrightarrow> map_of errs CONF_DONGLE_SERIAL = Some ''invalid_serial''" and
    i: "length (py_str i) \<noteq> 10 \<longrightarrow> map_of errs CONF_INVERTER_SERIAL = Some ''invalid_serial''" and
    r: "tcp_submit env s0 = (Inr None, s0\<lparr>var_errors := errs\<rparr>) \<or>
      (\<exists>e. py_int (int_of_str env)
              (dict_get ui CONF_CONNECTION_RETRIES (PInt DEFAULT_CONNECTION_RETRIES)) = Inl e \<and>
           \<not> is_Invalid e \<and> tcp_submit env s0 = (Inl e, s0\<lparr>var_errors := errs\<rparr>))"
    by blast
  have step: "async_step_tcp env (Some ui) s =
     (case tcp_submit env s0 of
        (Inl e, s') \<Rightarrow> (Inl e, s')
      | (Inr (Some r), s') \<Rightarrow> (Inr r, s')
      | (Inr None, s') \<Rightarrow>
          (Inr (ShowForm ''tcp'' tcp_data_schema
                  (case var_user_input s' of None \<Rightarrow> [] | Some d \<Rightarrow> d) (var_errors s')), s'))"
    by (simp add: async_step_tcp_def io_defs s0_def split: prod.splits sum.splits option.splits)
  from r show ?thesis
  proof
    assume "tcp_submit env s0 = (Inr None, s0\<lparr>var_errors := errs\<rparr>)"
    then have "async_step_tcp env (Some ui) s =
       (Inr (ShowForm ''tcp'' tcp_data_schema ui errs), s0\<lparr>var_errors := errs\<rparr>)"
      by (simp add: step s0)
    with d i s0 show ?thesis by auto
  next
    assume "\<exists>e. py_int (int_of_str env)
              (dict_get ui CONF_CONNECTION_RETRIES (PInt DEFAULT_CONNECTION_RETRIES)) = Inl e \<and>
           \<not> is_Invalid e \<and> tcp_submit env s0 = (Inl e, s0\<lparr>var_errors := errs\<rparr>)"
    then obtain e where e: "py_int (int_of_str env)
              (dict_get ui CONF_CONNECTION_RETRIES (PInt DEFAULT_CONNECTION_RETRIES)) = Inl e"
      "\<not> is_Invalid e" "tcp_submit env s0 = (Inl e, s0\<lparr>var_errors := errs\<rparr>)"
      by blast
    then have "async_step_tcp env (Some ui) s = (Inl e, s0\<lparr>var_errors := errs\<rparr>)"
      by (simp add: step)
    moreover have "int_value (dict_get ui CONF_CONNECTION_RETRIES
        (PInt DEFAULT_CONNECTION_RETRIES)) = None"
      using conv [of "dict_get ui CONF_CONNECTION_RETRIES (PInt DEFAULT_CONNECTION_RETRIES)" e]
        e(1) by blast
    ultimately show ?thesis using d i s0 e by auto
  qed
qed

theorem tcp_step_rejects_bad_serial_witness:
  "map_of short_serial_input CONF_DONGLE_SERIAL = Some (PStr (ascii ''SHORT'')) \<and>
   map_of short_serial_input CONF_INVERTER_SERIAL = Some example_inverter \<and>
   length (py_str (PStr (ascii ''SHORT''))) \<noteq> 10 \<and>
   fst (async_step_tcp example_env (Some short_serial_input) initial_state) =
     Inr (ShowForm ''tcp'' tcp_data_schema short_serial_input
            [(CONF_DONGLE_SERIAL, ''invalid_serial'')]) \<and>
   trace (snd (async_step_tcp example_env (Some short_serial_input) initial_state)) = []"
proof -
  have a: "map_of short_serial_input CONF_DONGLE_SERIAL = Some (PStr (ascii ''SHORT''))"
    "map_of short_serial_input CONF_INVERTER_SERIAL = Some example_inverter"
    by (simp_all add: short_serial_input_def conf_keys)
  have b: "length (py_str (PStr (ascii ''SHORT''))) \<noteq> 10 \<or> length (py_str example_inverter) \<noteq> 10"
    by (simp add: ascii_def)
  have c: "fst (async_step_tcp example_env (Some short_serial_input) initial_state) =
     Inr (ShowForm ''tcp'' tcp_data_schema short_serial_input
            [(CONF_DONGLE_SERIAL, ''invalid_serial'')])"
    by (simp add: flow_defs initial_state_def short_serial_input_def
      conf_keys const_values ascii_def example_env_defs)
  from tcp_step_rejects_bad_serial [OF a b, of example_env initial_state]
  have "trace (snd (async_step_tcp example_env (Some short_serial_input) initial_state)) =
      trace initial_state"
    by blast
  then show ?thesis using a c by (simp add: initial_state_def ascii_def)
qed

subsection \<open>The serials of a created entry\<close>




lemma digits_nonempty: "digits n \<noteq> []"
  by (subst digits.simps) simp













section \<open>Properties of the options flow\<close>

lemma tcp_probe_no_update:
  "AsyncUpdateEntry \<notin> set (fst (get_inverter_model_from_device_tcp env host port dongle inverter))"
  unfolding get_inverter_model_from_device_tcp_def
  by (auto simp: run_defs split: sum.splits option.splits prod.splits if_splits)

lemma rtu_probe_no_update:
  "AsyncUpdateEntry \<notin> set (fst (get_inverter_model_from_device_rtu env sp baud par stop bsize slave))"
  unfolding get_inverter_model_from_device_rtu_def
  by (auto simp: run_defs split: sum.splits option.splits prod.splits if_splits)

lemma options_probe_tcp_outcome:
  assumes "var_user_input s = Some ui" "var_errors s = []"
  shows "branch_outcome ui s (accepted_tcp env ui) (options_probe_tcp env s)"
  using assms tcp_probe_returns tcp_probe_no_update
  apply (simp add: branch_outcome_def accepted_tcp_def options_probe_tcp_def check_serial_def io_defs
      subscript_def validate_serial_def Let_def
      split: sum.splits option.splits if_splits prod.splits)
  apply (auto simp: truthy_model probed_model_def split: sum.splits option.splits if_splits prod.splits)
  done

lemma options_probe_rtu_outcome:
  assumes "var_user_input s = Some ui" "var_errors s = []"
  shows "branch_outcome ui s (accepted_rtu env ui) (options_probe_rtu env s)"
  using assms rtu_probe_returns rtu_probe_no_update
  apply (simp add: branch_outcome_def accepted_rtu_def options_probe_rtu_def io_defs
      subscript_def Let_def
      split: sum.splits option.splits if_splits prod.splits)
  apply (auto simp: truthy_model probed_model_def split: sum.splits option.splits if_splits prod.splits)
  done

lemma options_submit_outcome:
  assumes ui: "var_user_input s = Some ui" and er: "var_errors s = []"
    and acc_def: "acc = (case validate_connection_retries (int_of_str env)
                   (dict_get ui CONF_CONNECTION_RETRIES (PInt DEFAULT_CONNECTION_RETRIES)) of
              Inl e \<Rightarrow> None
            | Inr n \<Rightarrow> if py_eq protocol (PStr PROTOCOL_TCP) then accepted_tcp env ui
                       else accepted_rtu env ui)"
  shows "config_entry (snd (options_submit env cur protocol s)) =
     (case acc of
        None \<Rightarrow> config_entry s
      | Some m \<Rightarrow> \<lparr>entry_data = AList.update ''model'' (PStr m) (dict_merge cur ui),
                   entry_options = []\<rparr>) \<and>
     (\<exists>pes. AsyncUpdateEntry \<notin> set pes \<and>
        trace (snd (options_submit env cur protocol s)) = trace s @ pes @ update_calls acc)"
proof (cases "validate_connection_retries (int_of_str env)
                   (dict_get ui CONF_CONNECTION_RETRIES (PInt DEFAULT_CONNECTION_RETRIES))")
  case (Inl e)
  then show ?thesis
    using check_connection_retries_run [OF ui, of env]
    by (simp add: options_submit_def io_bind_def io_try_def io_get_def io_return_def
          set_error_def is_Exception_def acc_def update_calls_def)
next
  case (Inr n)
  then have c: "check_connection_retries env s = (Inr (), s)"
    using check_connection_retries_run [OF ui, of env] by simp
  define B where "B = (if py_eq protocol (PStr PROTOCOL_TCP) then options_probe_tcp env
                   else options_probe_rtu env)"
  have acc: "acc = (if py_eq protocol (PStr PROTOCOL_TCP) then accepted_tcp env ui
                       else accepted_rtu env ui)"
    using Inr by (simp add: acc_def)
  obtain r s1 where b: "B s = (r, s1)" by (cases "B s")
  have bo: "branch_outcome ui s acc (r, s1)"
    using options_probe_tcp_outcome [OF ui er, of env] options_probe_rtu_outcome [OF ui er, of env] b
    by (auto simp: B_def acc split: if_splits)
  then obtain pes where pes: "AsyncUpdateEntry \<notin> set pes" "trace s1 = trace s @ pes"
    by (auto simp: branch_outcome_def)
  have sub: "options_submit env cur protocol s =
      io_try (io_bind B (\<lambda>_. options_store env cur)) is_Exception
        (\<lambda>e. io_bind (if is_Invalid e then set_error ''base'' ''invalid_serial''
                     else set_error ''base'' ''unknown'') (\<lambda>_. io_return None)) s"
    using c er by (simp add: options_submit_def B_def io_bind_def io_try_def io_get_def)
  show ?thesis
  proof (cases acc)
    case None
    with bo have cs: "config_entry s1 = config_entry s" and f: "r \<noteq> Inr () \<or> var_errors s1 \<noteq> []"
      by (simp_all add: branch_outcome_def)
    have "config_entry (snd (options_submit env cur protocol s)) = config_entry s \<and>
        trace (snd (options_submit env cur protocol s)) = trace s1"
      using f cs b
      by (cases r) (auto simp: sub io_bind_def io_try_def io_get_def io_return_def set_error_def
          options_store_def is_Exception_def)
    with None pes show ?thesis by (auto simp: update_calls_def)
  next
    case (Some m)
    with bo have h: "r = Inr ()" "var_errors s1 = []" "var_model s1 = Some (Some m)"
      "var_user_input s1 = Some ui"
      by (simp_all add: branch_outcome_def)
    have "config_entry (snd (options_submit env cur protocol s)) =
      \<lparr>entry_data = AList.update ''model'' (PStr m) (dict_merge cur ui), entry_options = []\<rparr> \<and>
       trace (snd (options_submit env cur protocol s)) = trace s1 @ [AsyncUpdateEntry, AsyncReload]"
      using h b
      by (auto simp: sub io_defs options_store_def is_Exception_def returned_def Let_def
            split: option.splits)
    with Some pes show ?thesis by (auto simp: update_calls_def)
  qed
qed

text \<open>
  Claim C4. A submission to the options flow leaves the stored entry as \<open>reconfigured\<close>
  says: when the retry count, (for TCP) both serials and the probe all succeed, the entry's
  data become the previous configuration (data overlaid with options) overlaid with the
  submitted fields, with the probed model under \<^verbatim>\<open>model\<close>, and its options become empty;
  in every other case, a validation error, a missing field, a failed probe or an exception,
  the entry is unchanged. The update is called after the probe's calls, and only for an
  accepted submission; showing the form without a submission changes nothing.
\<close>

theorem options_flow_reconfigures:
  "config_entry (snd (async_step_init env (Some ui) s)) = reconfigured env (config_entry s) ui \<and>
   (\<exists>pes. AsyncUpdateEntry \<notin> set pes \<and>
      trace (snd (async_step_init env (Some ui) s)) =
        trace s @ pes @
        update_calls (accepted_model env
           (dict_merge (entry_data (config_entry s)) (entry_options (config_entry s))) ui)) \<and>
   async_step_init env None s =
     (Inr (ShowForm ''init''
        (if py_eq (dict_get (dict_merge (entry_data (config_entry s)) (entry_options (config_entry s))) CONF_PROTOCOL (PStr PROTOCOL_TCP)) (PStr PROTOCOL_TCP)
         then tcp_options_schema (dict_merge (entry_data (config_entry s)) (entry_options (config_entry s)))
         else rtu_options_schema (dict_merge (entry_data (config_entry s)) (entry_options (config_entry s))) (serial_port_choices env))
        (dict_merge (entry_data (config_entry s)) (entry_options (config_entry s))) []),
      s\<lparr>var_errors := [], var_user_input := None, var_model := None\<rparr>)"
proof -
  define s0 where "s0 = s\<lparr>var_errors := [], var_user_input := Some ui, var_model := None\<rparr>"
  define cur where "cur = dict_merge (entry_data (config_entry s)) (entry_options (config_entry s))"
  define protocol where "protocol = dict_get cur CONF_PROTOCOL (PStr PROTOCOL_TCP)"
  have s0: "var_user_input s0 = Some ui" "var_errors s0 = []" "config_entry s0 = config_entry s"
    "trace s0 = trace s"
    by (simp_all add: s0_def)
  have eq: "config_entry (snd (async_step_init env (Some ui) s)) =
      config_entry (snd (options_submit env cur protocol s0))"
    "trace (snd (async_step_init env (Some ui) s)) =
      trace (snd (options_submit env cur protocol s0))"
    by (simp_all add: async_step_init_def io_defs s0_def cur_def protocol_def Let_def
          split: prod.splits sum.splits option.splits)
  have a: "config_entry (snd (async_step_init env (Some ui) s)) = reconfigured env (config_entry s) ui"
    unfolding eq using options_submit_outcome [where env = env and protocol = protocol and cur = cur,
        OF s0(1,2) refl]
    unfolding s0(3) reconfigured_def accepted_model_def Let_def cur_def protocol_def
    by (simp split: sum.splits)
  have b: "\<exists>pes. AsyncUpdateEntry \<notin> set pes \<and>
      trace (snd (async_step_init env (Some ui) s)) =
        trace s @ pes @
        update_calls (accepted_model env
           (dict_merge (entry_data (config_entry s)) (entry_options (config_entry s))) ui)"
    unfolding eq using options_submit_outcome [where env = env and protocol = protocol and cur = cur,
        OF s0(1,2) refl]
    unfolding s0(4) accepted_model_def Let_def cur_def protocol_def
    by blast
  have c: "async_step_init env None s =
     (Inr (ShowForm ''init''
        (if py_eq (dict_get (dict_merge (entry_data (config_entry s)) (entry_options (config_entry s))) CONF_PROTOCOL (PStr PROTOCOL_TCP)) (PStr PROTOCOL_TCP)
         then tcp_options_schema (dict_merge (entry_data (config_entry s)) (entry_options (config_entry s)))
         else rtu_options_schema (dict_merge (entry_data (config_entry s)) (entry_options (config_entry s))) (serial_port_choices env))
        (dict_merge (entry_data (config_entry s)) (entry_options (config_entry s))) []),
      s\<lparr>var_errors := [], var_user_input := None, var_model := None\<rparr>)"
    by (simp add: async_step_init_def io_defs Let_def)
  from a b c show ?thesis by blast
qed


theorem options_flow_reconfigures_witness:
  "config_entry (snd (async_step_init example_env (Some reconfigure_input) stored_state)) =
     \<lparr>entry_data = reconfigured_data, entry_options = []\<rparr> \<and>
   config_entry (snd (async_step_init env_unreachable (Some reconfigure_input) stored_state)) =
     \<lparr>entry_data = example_tcp_entry, entry_options = []\<rparr>"
proof -
  have a: "reconfigured example_env (config_entry stored_state) reconfigure_input =
      \<lparr>entry_data = reconfigured_data, entry_options = []\<rparr>"
    by (simp add: reconfigured_def accepted_model_def accepted_tcp_def probed_model_def Let_def
          stored_state_def initial_state_def example_tcp_entry_def example_tcp_input_def
          reconfigure_input_def reconfigured_data_def dict_merge_def dict_get_def
          validate_connection_retries_def conf_keys const_values ascii_def
          get_inverter_model_from_device_tcp_def run_defs example_env_defs
          encode_code_point_def)
  have b: "reconfigured env_unreachable (config_entry stored_state) reconfigure_input =
      \<lparr>entry_data = example_tcp_entry, entry_options = []\<rparr>"
    by (simp add: reconfigured_def accepted_model_def accepted_tcp_def probed_model_def Let_def
          stored_state_def initial_state_def example_tcp_entry_def example_tcp_input_def
          reconfigure_input_def dict_merge_def dict_get_def
          validate_connection_retries_def conf_keys const_values ascii_def
          get_inverter_model_from_device_tcp_def run_defs example_env_defs
          encode_code_point_def)
  show ?thesis
    using options_flow_reconfigures [of example_env reconfigure_input stored_state]
      options_flow_reconfigures [of env_unreachable reconfigure_input stored_state]
    by (simp only: a b)
qed

end
